theory Spec2Isabelle
  imports Complex_Main "HOL-Library.Char_ord" "HOL-Library.List_Lexorder"
begin

section \<open>peon-ping: the hook of \<^verbatim>\<open>src/peon.py\<close>\<close>

text \<open>
  A shallow embedding of \<^verbatim>\<open>peon.py\<close>: the command-line subcommands, the project
  name extraction and the hook logic of \<^verbatim>\<open>main\<close>.

  Strings are byte lists (UTF-8), so the bullet U+25CF, the dash U+2014 and the arrow
  U+2192 of the source are three bytes each. Time stamps and the volume are Python floats;
  they are modelled as reals, so rounding is not part of the model.

  The files under \<^verbatim>\<open>PEON_DIR\<close> form the \<open>world\<close>; what one run reads from its
  host (platform, stdin, clock, random draws, the focused application) forms the \<open>env\<close>.
  Spawned players and notifiers are recorded in the outcome as requests; whether the
  spawned process succeeds is outside the model, and so is the background update check.
\<close>

subsection \<open>Strings\<close>

definition bullet :: string where
  "bullet = [CHR 0xE2, CHR 0x97, CHR 0x8F]"

definition em_dash :: string where
  "em_dash = [CHR 0xE2, CHR 0x80, CHR 0x94]"

definition dquote :: string where
  "dquote = [CHR 0x22]"

definition squote :: string where
  "squote = [CHR 0x27]"

definition right_arrow :: string where
  "right_arrow = [CHR 0xE2, CHR 0x86, CHR 0x92]"

text \<open>\<^verbatim>\<open>str.lower()\<close>: only the letters A to Z map to an ASCII letter.\<close>

definition lower_char :: "char \<Rightarrow> char" where
  "lower_char c =
     (case map_of (zip ''ABCDEFGHIJKLMNOPQRSTUVWXYZ'' ''abcdefghijklmnopqrstuvwxyz'') c of
        None \<Rightarrow> c
      | Some l \<Rightarrow> l)"

text \<open>\<^verbatim>\<open>', '.join(names)\<close>\<close>

fun join_comma :: "string list \<Rightarrow> string" where
  "join_comma [] = []"
| "join_comma [x] = x"
| "join_comma (x # y # ys) = x @ '', '' @ join_comma (y # ys)"

text \<open>\<^verbatim>\<open>xs.index(x)\<close>; \<open>None\<close> is the \<^verbatim>\<open>ValueError\<close>.\<close>

fun index_of :: "'a list \<Rightarrow> 'a \<Rightarrow> nat option" where
  "index_of [] y = None"
| "index_of (x # xs) y = (if x = y then Some 0 else map_option Suc (index_of xs y))"

text \<open>\<^verbatim>\<open>random.choice(xs)\<close> with the generator's draw \<open>r\<close>; \<open>None\<close> is the
  \<^verbatim>\<open>IndexError\<close> on an empty sequence.\<close>

definition random_choice :: "'a list \<Rightarrow> nat \<Rightarrow> 'a option" where
  "random_choice xs r = (if xs = [] then None else Some (xs ! (r mod length xs)))"

text \<open>\<^verbatim>\<open>d.get(k, default)\<close>\<close>

definition dict_get :: "('k \<rightharpoonup> 'v) \<Rightarrow> 'k \<Rightarrow> 'v \<Rightarrow> 'v" where
  "dict_get d k dflt = (case d k of None \<Rightarrow> dflt | Some v \<Rightarrow> v)"

subsection \<open>Documents\<close>

datatype platform = Mac | Windows | Wsl | Linux | Unknown

text \<open>
  A JSON value where the program only looks at \<^verbatim>\<open>str(v).lower()\<close>. \<open>JOther\<close> is a
  number, null, an array or an object: its \<^verbatim>\<open>str()\<close> is neither \<^verbatim>\<open>true\<close> nor
  \<^verbatim>\<open>false\<close> in any case.
\<close>

datatype jval = JBool bool | JStr string | JOther

fun str_lower :: "jval \<Rightarrow> string option" where
  "str_lower (JBool b) = Some (if b then ''true'' else ''false'')"
| "str_lower (JStr s) = Some (map lower_char s)"
| "str_lower JOther = None"

text \<open>
  \<^verbatim>\<open>config.json\<close> as the program reads it: each field holds the value at its key, or
  the default of the matching \<^verbatim>\<open>cfg.get(key, default)\<close> when the key is absent.
  \<open>unread_keys\<close> are the keys the program never looks at.
\<close>

record config =
  enabled :: jval
  volume :: real
  active_pack :: string
  pack_rotation :: "string list"
  annoyed_threshold :: int
  annoyed_window_seconds :: real
  categories :: "string \<rightharpoonup> jval"
  unread_keys :: "string \<rightharpoonup> jval"

text \<open>The empty document \<^verbatim>\<open>{}\<close>, which also stands in for an unreadable file.\<close>

definition empty_config :: config where
  "empty_config =
     \<lparr>enabled = JBool True, volume = 1 / 2, active_pack = ''peon'', pack_rotation = [],
      annoyed_threshold = 3, annoyed_window_seconds = 10, categories = Map.empty,
      unread_keys = Map.empty\<rparr>"

text \<open>
  \<^verbatim>\<open>.state.json\<close>. An absent key reads as the empty collection. The legacy shape of
  \<^verbatim>\<open>prompt_timestamps\<close>, a plain list, is kept apart since the code tests for it.
\<close>

datatype prompt_ts = Ts_list "real list" | Ts_dict "string \<rightharpoonup> real list"

record state =
  agent_sessions :: "string set"
  session_packs :: "string \<rightharpoonup> string"
  prompt_timestamps :: prompt_ts
  last_played :: "string \<rightharpoonup> string"

definition empty_state :: state where
  "empty_state =
     \<lparr>agent_sessions = {}, session_packs = Map.empty, prompt_timestamps = Ts_dict Map.empty,
      last_played = Map.empty\<rparr>"

record sound =
  s_file :: string
  s_line :: string

text \<open>A pack's \<^verbatim>\<open>manifest.json\<close>; a category without sounds reads as \<open>[]\<close>.\<close>

record manifest =
  display_name :: "string option"
  sounds_of :: "string \<rightharpoonup> sound list"

text \<open>
  The files of the installation. \<open>packs\<close> lists the directories under \<^verbatim>\<open>packs/\<close>
  that hold a \<^verbatim>\<open>manifest.json\<close>, each with the parsed manifest (\<open>None\<close>: the file
  does not parse). \<open>sound_files\<close> holds the (pack, file) pairs that exist under
  \<^verbatim>\<open>packs/<pack>/sounds/\<close>. \<open>update_available\<close> and \<open>version_file\<close> are the
  stripped contents of \<^verbatim>\<open>.update_available\<close> and \<^verbatim>\<open>VERSION\<close>.
\<close>

record world =
  config_file :: "config option"
  state_file :: "state option"
  paused_file :: bool
  packs :: "(string \<times> manifest option) list"
  sound_files :: "(string \<times> string) set"
  update_available :: "string option"
  version_file :: "string option"

record event_data =
  hook_event_name :: string
  notification_type :: string
  cwd :: string
  session_id :: string
  permission_mode :: string

text \<open>
  What \<^verbatim>\<open>sys.stdin.read()\<close> and \<^verbatim>\<open>json.loads\<close> make of the input: reading fails,
  the text is empty or blank, it is not JSON, it is JSON but no object, or it is an object,
  whose string fields default to \<^verbatim>\<open>''\<close>.
\<close>

datatype stdin = Read_failed | Blank | Not_json | Json_other | Json_object event_data

record env =
  platform :: platform
  stdin :: stdin
  now :: real
  pack_draw :: nat
  sound_draw :: nat
  frontmost :: "string option"
  foreground_is_terminal :: bool
  ntpath_basename :: "string \<Rightarrow> string"

datatype exit_status = Exit nat | Uncaught

fun exit_code :: "exit_status \<Rightarrow> nat" where
  "exit_code (Exit n) = n"
| "exit_code Uncaught = 1"

datatype printed = Line string | Title_escape string | Packs_listing | Usage_text

text \<open>
  What one run does: how it ends, what it prints, and the requests it hands to the player
  and the notifier. \<open>o_category\<close> and \<open>o_sound_file\<close> are the locals \<^verbatim>\<open>category\<close>
  and \<^verbatim>\<open>sound_file\<close> of \<^verbatim>\<open>main\<close> (a sound file is a pack and a file name).
\<close>

record outcome =
  o_exit :: exit_status
  o_stdout :: "printed list"
  o_stderr :: "string list"
  o_category :: string
  o_sound_file :: "(string \<times> string) option"
  o_played :: "((string \<times> string) \<times> real) option"
  o_notification :: "(string \<times> string \<times> string) option"

definition quiet :: "exit_status \<Rightarrow> outcome" where
  "quiet x =
     \<lparr>o_exit = x, o_stdout = [], o_stderr = [], o_category = [], o_sound_file = None,
      o_played = None, o_notification = None\<rparr>"

subsection \<open>Terminal focus\<close>

definition MAC_TERMINALS :: "string set" where
  "MAC_TERMINALS =
     {''Terminal'', ''iTerm2'', ''Warp'', ''Alacritty'', ''kitty'', ''WezTerm'', ''Ghostty''}"

text \<open>On Windows the window title query is the host's answer \<open>foreground_is_terminal\<close>.\<close>

definition terminal_is_focused :: "env \<Rightarrow> bool" where
  "terminal_is_focused e =
     (if platform e = Mac then
        (case frontmost e of None \<Rightarrow> False | Some n \<Rightarrow> n \<in> MAC_TERMINALS)
      else if platform e = Windows then foreground_is_terminal e
      else False)"

text \<open>\<^verbatim>\<open>play_sound\<close> spawns a player on macOS, WSL and Windows, and does nothing elsewhere.\<close>

definition play_sound :: "platform \<Rightarrow> (string \<times> string) \<Rightarrow> real \<Rightarrow> ((string \<times> string) \<times> real) option" where
  "play_sound p filepath vol =
     (if p = Mac then Some (filepath, vol)
      else if p = Wsl then Some (filepath, vol)
      else if p = Windows then Some (filepath, vol)
      else None)"

subsection \<open>CLI subcommands\<close>

definition cmd_pause :: "world \<Rightarrow> outcome \<times> world" where
  "cmd_pause w =
     ((quiet (Exit 0))\<lparr>o_stdout := [Line ''peon-ping: sounds paused'']\<rparr>,
      w\<lparr>paused_file := True\<rparr>)"

definition cmd_resume :: "world \<Rightarrow> outcome \<times> world" where
  "cmd_resume w =
     ((quiet (Exit 0))\<lparr>o_stdout := [Line ''peon-ping: sounds resumed'']\<rparr>,
      w\<lparr>paused_file := False\<rparr>)"

definition cmd_toggle :: "world \<Rightarrow> outcome \<times> world" where
  "cmd_toggle w = (if paused_file w then cmd_resume w else cmd_pause w)"

definition cmd_status :: "world \<Rightarrow> outcome \<times> world" where
  "cmd_status w =
     (if paused_file w then ((quiet (Exit 0))\<lparr>o_stdout := [Line ''peon-ping: paused'']\<rparr>, w)
      else ((quiet (Exit 0))\<lparr>o_stdout := [Line ''peon-ping: active'']\<rparr>, w))"

text \<open>
  \<^verbatim>\<open>glob.glob(os.path.join(packs_dir, '*', 'manifest.json'))\<close>: the directories that
  hold a manifest, but for those whose name starts with a dot, which \<^verbatim>\<open>*\<close> does not
  match.
\<close>

definition glob_packs :: "world \<Rightarrow> (string \<times> manifest option) list" where
  "glob_packs w = filter (\<lambda>p. take 1 (fst p) \<noteq> ''.'') (packs w)"

text \<open>\<^verbatim>\<open>cmd_packs\<close> loads every manifest it finds; one that does not parse ends the run.\<close>

definition cmd_packs :: "world \<Rightarrow> outcome \<times> world" where
  "cmd_packs w =
     (if \<exists>p \<in> set (glob_packs w). snd p = None
      then ((quiet Uncaught)\<lparr>o_stdout := [Packs_listing]\<rparr>, w)
      else ((quiet (Exit 0))\<lparr>o_stdout := [Packs_listing]\<rparr>, w))"

definition load_config :: "world \<Rightarrow> config" where
  "load_config w = (case config_file w of None \<Rightarrow> empty_config | Some c \<Rightarrow> c)"

text \<open>The tail of \<^verbatim>\<open>cmd_pack\<close>: write the configuration, then read the pack's
  manifest for its display name (a manifest that does not parse ends the run there).\<close>

definition switch_pack :: "world \<Rightarrow> config \<Rightarrow> string \<Rightarrow> outcome \<times> world" where
  "switch_pack w cfg next_pack =
     (let w' = w\<lparr>config_file := Some (cfg\<lparr>active_pack := next_pack\<rparr>)\<rparr>
      in (case map_of (packs w) next_pack of
            Some (Some m) \<Rightarrow>
              ((quiet (Exit 0))
                 \<lparr>o_stdout :=
                    [Line (''peon-ping: switched to '' @ next_pack @ '' ('' @
                           (case display_name m of None \<Rightarrow> next_pack | Some d \<Rightarrow> d) @
                           '')'')]\<rparr>,
               w')
          | _ \<Rightarrow> (quiet Uncaught, w')))"

definition cmd_pack :: "string option \<Rightarrow> world \<Rightarrow> outcome \<times> world" where
  "cmd_pack pack_arg w =
     (let cfg = load_config w;
          names = sort (map fst (glob_packs w))
      in if names = [] then ((quiet (Exit 1))\<lparr>o_stderr := [''Error: no packs found'']\<rparr>, w)
         else
           (case pack_arg of
              None \<Rightarrow>
                (case index_of names (active_pack cfg) of
                   Some idx \<Rightarrow> switch_pack w cfg (names ! ((idx + 1) mod length names))
                 | None \<Rightarrow> switch_pack w cfg (names ! 0))
            | Some a \<Rightarrow>
                (if a \<notin> set names then
                   ((quiet (Exit 1))
                      \<lparr>o_stderr :=
                         [''Error: pack '' @ dquote @ a @ dquote @ '' not found.'',
                          ''Available packs: '' @ join_comma names]\<rparr>,
                    w)
                 else switch_pack w cfg a)))"

definition cmd_help :: "world \<Rightarrow> outcome \<times> world" where
  "cmd_help w = ((quiet (Exit 0))\<lparr>o_stdout := [Usage_text]\<rparr>, w)"

subsection \<open>Project name extraction\<close>

text \<open>
  \<^verbatim>\<open>os.path.basename\<close> is \<^verbatim>\<open>posixpath.basename\<close> everywhere but on Windows: the part
  after the last slash (\<^verbatim>\<open>p[p.rfind('/') + 1:]\<close>). On Windows it is
  \<^verbatim>\<open>ntpath.basename\<close>, whose drive and UNC rules are the host's (\<open>ntpath_basename\<close>).
\<close>

definition posixpath_basename :: "string \<Rightarrow> string" where
  "posixpath_basename p = rev (takeWhile (\<lambda>c. c \<noteq> CHR ''/'') (rev p))"

definition os_path_basename :: "env \<Rightarrow> string \<Rightarrow> string" where
  "os_path_basename e p =
     (if platform e = Windows then ntpath_basename e p else posixpath_basename p)"

text \<open>The characters the pattern \<^verbatim>\<open>[^a-zA-Z0-9 ._-]\<close> leaves in place.\<close>

definition name_char :: "char \<Rightarrow> bool" where
  "name_char c =
     ((CHR ''a'' \<le> c \<and> c \<le> CHR ''z'') \<or> (CHR ''A'' \<le> c \<and> c \<le> CHR ''Z'') \<or>
      (CHR ''0'' \<le> c \<and> c \<le> CHR ''9'') \<or> c = CHR '' '' \<or> c = CHR ''.'' \<or>
      c = CHR ''_'' \<or> c = CHR ''-'')"

definition extract_project_name :: "env \<Rightarrow> string \<Rightarrow> string" where
  "extract_project_name e path =
     (if path = [] then ''claude''
      else (let name = os_path_basename e path
            in if name = [] then ''claude''
               else (let stripped = filter name_char name
                     in if stripped = [] then ''claude'' else stripped)))"

subsection \<open>Main hook logic\<close>

definition category_names :: "string list" where
  "category_names =
     [''greeting'', ''acknowledge'', ''complete'', ''error'', ''permission'',
      ''resource_limit'', ''annoyed'']"

definition cat_enabled :: "config \<Rightarrow> (string \<rightharpoonup> bool)" where
  "cat_enabled cfg =
     map_of (map (\<lambda>c. (c, str_lower (dict_get (categories cfg) c (JBool True)) = Some ''true''))
               category_names)"

definition hook_disabled :: "config \<Rightarrow> bool" where
  "hook_disabled cfg = (str_lower (enabled cfg) = Some ''false'')"

definition agent_modes :: "string set" where
  "agent_modes = {''delegate''}"

text \<open>The state file as read: a missing or unreadable file is the empty document.\<close>

definition read_state :: "state option \<Rightarrow> state" where
  "read_state sf = (case sf of None \<Rightarrow> empty_state | Some s \<Rightarrow> s)"

definition load_state :: "world \<Rightarrow> state" where
  "load_state w = read_state (state_file w)"

text \<open>
  Pack rotation: the pack to use, the state and whether the state was changed. The draw
  is from a non-empty list, so its \<open>None\<close> branch is never taken.
\<close>

definition draw_pack :: "config \<Rightarrow> string \<Rightarrow> nat \<Rightarrow> state \<Rightarrow> string \<times> state \<times> bool" where
  "draw_pack cfg sid r st =
     (case random_choice (pack_rotation cfg) r of
        None \<Rightarrow> (active_pack cfg, st, False)
      | Some p \<Rightarrow> (p, st\<lparr>session_packs := (session_packs st)(sid \<mapsto> p)\<rparr>, True))"

definition pin_pack :: "config \<Rightarrow> string \<Rightarrow> nat \<Rightarrow> state \<Rightarrow> string \<times> state \<times> bool" where
  "pin_pack cfg sid r st =
     (if pack_rotation cfg \<noteq> [] then
        (case session_packs st sid of
           None \<Rightarrow> draw_pack cfg sid r st
         | Some p \<Rightarrow>
             (if p \<in> set (pack_rotation cfg) then (p, st, False) else draw_pack cfg sid r st))
      else (active_pack cfg, st, False))"

text \<open>The locals that event routing sets.\<close>

record routing =
  category :: string
  status :: string
  marker :: string
  notify :: string
  notify_color :: string
  msg :: string

definition no_routing :: routing where
  "no_routing =
     \<lparr>category = [], status = [], marker = [], notify = [], notify_color = [], msg = []\<rparr>"

text \<open>The time stamps of a \<^verbatim>\<open>UserPromptSubmit\<close>: prune, append, store.\<close>

definition record_prompt :: "config \<Rightarrow> string \<Rightarrow> real \<Rightarrow> state \<Rightarrow> real list \<times> state" where
  "record_prompt cfg sid t st =
     (let all_ts = (case prompt_timestamps st of Ts_list l \<Rightarrow> Map.empty | Ts_dict d \<Rightarrow> d);
          ts = filter (\<lambda>u. t - u < annoyed_window_seconds cfg) (dict_get all_ts sid []) @ [t]
      in (ts, st\<lparr>prompt_timestamps := Ts_dict (all_ts(sid \<mapsto> ts))\<rparr>))"

text \<open>
  Event routing. \<open>None\<close> is the \<^verbatim>\<open>sys.exit(0)\<close> of an unknown event or notification
  type; otherwise the locals, the state and the dirty flag.
\<close>

definition event_routing ::
  "config \<Rightarrow> event_data \<Rightarrow> real \<Rightarrow> string \<Rightarrow> state \<Rightarrow> bool \<Rightarrow> (routing \<times> state \<times> bool) option" where
  "event_routing cfg ev t project st dirty =
     (if hook_event_name ev = ''SessionStart'' then
        Some (no_routing\<lparr>category := ''greeting'', status := ''ready''\<rparr>, st, dirty)
      else if hook_event_name ev = ''UserPromptSubmit'' then
        (if dict_get (cat_enabled cfg) ''annoyed'' True then
           (let (ts, st') = record_prompt cfg (session_id ev) t st
            in Some (no_routing
                       \<lparr>category := (if annoyed_threshold cfg \<le> int (length ts) then ''annoyed'' else []),
                        status := ''working''\<rparr>,
                     st', True))
         else Some (no_routing\<lparr>status := ''working''\<rparr>, st, dirty))
      else if hook_event_name ev = ''Stop'' then
        Some (\<lparr>category = ''complete'', status = ''done'', marker = bullet @ '' '',
               notify = ''1'', notify_color = ''blue'',
               msg = project @ ''  '' @ em_dash @ ''  Task complete''\<rparr>, st, dirty)
      else if hook_event_name ev = ''Notification'' then
        (if notification_type ev = ''permission_prompt'' then
           Some (\<lparr>category = ''permission'', status = ''needs approval'', marker = bullet @ '' '',
                  notify = ''1'', notify_color = ''red'',
                  msg = project @ ''  '' @ em_dash @ ''  Permission needed''\<rparr>, st, dirty)
         else if notification_type ev = ''idle_prompt'' then
           Some (\<lparr>category = [], status = ''done'', marker = bullet @ '' '',
                  notify = ''1'', notify_color = ''yellow'',
                  msg = project @ ''  '' @ em_dash @ ''  Waiting for input''\<rparr>, st, dirty)
         else None)
      else if hook_event_name ev = ''PermissionRequest'' then
        Some (\<lparr>category = ''permission'', status = ''needs approval'', marker = bullet @ '' '',
               notify = ''1'', notify_color = ''red'',
               msg = project @ ''  '' @ em_dash @ ''  Permission needed''\<rparr>, st, dirty)
      else None)"

text \<open>
  Pick sound: the sound file, the state and the dirty flag. Every exception inside the
  \<^verbatim>\<open>try\<close> (no manifest, a manifest that does not parse, a draw from no candidates)
  leaves all three as they were.
\<close>

definition pick_sound ::
  "world \<Rightarrow> bool \<Rightarrow> string \<Rightarrow> string \<Rightarrow> nat \<Rightarrow> state \<Rightarrow> bool \<Rightarrow> (string \<times> string) option \<times> state \<times> bool" where
  "pick_sound w paused cat pack r st dirty =
     (if cat \<noteq> [] \<and> \<not> paused then
        (case map_of (packs w) pack of
           Some (Some m) \<Rightarrow>
             (let sounds = dict_get (sounds_of m) cat []
              in if sounds \<noteq> [] then
                   (let last_file = dict_get (last_played st) cat [];
                        candidates = (if length sounds \<le> 1 then sounds
                                      else filter (\<lambda>s. s_file s \<noteq> last_file) sounds)
                    in (case random_choice candidates r of
                          None \<Rightarrow> (None, st, dirty)
                        | Some pick \<Rightarrow>
                            (Some (pack, s_file pick),
                             st\<lparr>last_played := (last_played st)(cat \<mapsto> s_file pick)\<rparr>, True)))
                 else (None, st, dirty))
         | _ \<Rightarrow> (None, st, dirty))
      else (None, st, dirty))"

text \<open>The update notice of a \<^verbatim>\<open>SessionStart\<close>.\<close>

definition update_notice :: "world \<Rightarrow> string list" where
  "update_notice w =
     (case update_available w of
        None \<Rightarrow> []
      | Some new_ver \<Rightarrow>
          (if new_ver \<noteq> [] then
             [''peon-ping update available: '' @
              (case version_file w of None \<Rightarrow> ''?'' | Some cur_ver \<Rightarrow> cur_ver) @ '' '' @
              right_arrow @ '' '' @ new_ver @ '' '' @ em_dash @
              '' run: curl -fsSL https://raw.githubusercontent.com/tonyyont/peon-ping/main/install.sh | bash'']
           else []))"

definition paused_notice :: string where
  "paused_notice =
     ''peon-ping: sounds paused '' @ em_dash @
     '' run '' @ squote @ ''peon --resume'' @ squote @ '' or '' @ squote @
     ''/peon-ping-toggle'' @ squote @ '' to unpause''"

text \<open>\<^verbatim>\<open>s.strip()\<close> is empty: every character is (ASCII) white space.\<close>

definition py_space :: "char \<Rightarrow> bool" where
  "py_space c =
     (c \<in> {CHR '' '', CHR 0x09, CHR 0x0A, CHR 0x0B, CHR 0x0C, CHR 0x0D,
            CHR 0x1C, CHR 0x1D, CHR 0x1E, CHR 0x1F})"

definition strip_empty :: "string \<Rightarrow> bool" where
  "strip_empty s = list_all py_space s"

text \<open>\<^verbatim>\<open>send_notification\<close> shows a popup on macOS, WSL and Windows only.\<close>

definition send_notification ::
  "platform \<Rightarrow> string \<Rightarrow> string \<Rightarrow> string \<Rightarrow> (string \<times> string \<times> string) option" where
  "send_notification p m t color =
     (if p = Mac then Some (m, t, color)
      else if p = Wsl \<or> p = Windows then Some (m, t, color)
      else None)"

text \<open>
  After event routing: the category gate, the sound, the single state write, the notices,
  the tab title, the player and the notifier.
\<close>

definition dispatch ::
  "env \<Rightarrow> world \<Rightarrow> config \<Rightarrow> bool \<Rightarrow> event_data \<Rightarrow> string \<Rightarrow> string \<Rightarrow> routing \<Rightarrow> state \<Rightarrow> bool \<Rightarrow> outcome \<times> world" where
  "dispatch e w cfg paused ev pack project r st dirty =
     (let cat = (if category r \<noteq> [] \<and> \<not> dict_get (cat_enabled cfg) (category r) True
                 then [] else category r);
          (sound_file, st', dirty') = pick_sound w paused cat pack (sound_draw e) st dirty;
          w' = (if dirty' then w\<lparr>state_file := Some st'\<rparr> else w);
          err = (if hook_event_name ev = ''SessionStart'' then update_notice w else []) @
                (if hook_event_name ev = ''SessionStart'' \<and> paused then [paused_notice] else []);
          title = marker r @ project @ '': '' @ status r
      in (\<lparr>o_exit = Exit 0,
           o_stdout = (if \<not> strip_empty title then [Title_escape title] else []),
           o_stderr = err,
           o_category = cat,
           o_sound_file = sound_file,
           o_played =
             (case sound_file of
                None \<Rightarrow> None
              | Some f \<Rightarrow> if f \<in> sound_files w then play_sound (platform e) f (volume cfg) else None),
           o_notification =
             (if notify r \<noteq> [] \<and> \<not> paused \<and> platform e \<noteq> Windows then
                (if \<not> terminal_is_focused e then
                   send_notification (platform e) (msg r) title
                     (if notify_color r \<noteq> [] then notify_color r else ''red'')
                 else None)
              else None)\<rparr>,
          w'))"

text \<open>A parsed event: agent detection, pack rotation, routing, then the rest.\<close>

definition handle_event :: "env \<Rightarrow> world \<Rightarrow> config \<Rightarrow> bool \<Rightarrow> event_data \<Rightarrow> outcome \<times> world" where
  "handle_event e w cfg paused ev =
     (let st = load_state w
      in if permission_mode ev \<noteq> [] \<and> permission_mode ev \<in> agent_modes then
           (quiet (Exit 0),
            w\<lparr>state_file :=
                 Some (st\<lparr>agent_sessions := insert (session_id ev) (agent_sessions st)\<rparr>)\<rparr>)
         else if session_id ev \<in> agent_sessions st then (quiet (Exit 0), w)
         else
           (let (pack, st1, dirty1) = pin_pack cfg (session_id ev) (pack_draw e) st;
                project = extract_project_name e (cwd ev)
            in (case event_routing cfg ev (now e) project st1 dirty1 of
                  None \<Rightarrow> (quiet (Exit 0), w)
                | Some (r, st2, dirty2) \<Rightarrow> dispatch e w cfg paused ev pack project r st2 dirty2)))"

text \<open>Reading stdin and the configuration, up to the parsed event.\<close>

fun hook :: "stdin \<Rightarrow> env \<Rightarrow> world \<Rightarrow> outcome \<times> world" where
  "hook Read_failed e w = (quiet (Exit 0), w)"
| "hook Blank e w = (quiet (Exit 0), w)"
| "hook Not_json e w =
     (if hook_disabled (load_config w) then (quiet (Exit 0), w) else (quiet (Exit 0), w))"
| "hook Json_other e w =
     (if hook_disabled (load_config w) then (quiet (Exit 0), w) else (quiet Uncaught, w))"
| "hook (Json_object ev) e w =
     (if hook_disabled (load_config w) then (quiet (Exit 0), w)
      else handle_event e w (load_config w) (paused_file w) ev)"

text \<open>\<^verbatim>\<open>main\<close>: the subcommands first, then the hook.\<close>

definition main :: "string list \<Rightarrow> env \<Rightarrow> world \<Rightarrow> outcome \<times> world" where
  "main args e w =
     (case args of
        [] \<Rightarrow> hook (stdin e) e w
      | cmd # rest \<Rightarrow>
          (if cmd = ''--pause'' then cmd_pause w
           else if cmd = ''--resume'' then cmd_resume w
           else if cmd = ''--toggle'' then cmd_toggle w
           else if cmd = ''--status'' then cmd_status w
           else if cmd = ''--packs'' then cmd_packs w
           else if cmd = ''--pack'' then
             cmd_pack (case rest of [] \<Rightarrow> None | a # others \<Rightarrow> Some a) w
           else if cmd = ''--help'' \<or> cmd = ''-h'' then cmd_help w
           else if take 2 cmd = ''--'' then
             ((quiet (Exit 1))
                \<lparr>o_stderr := [''Unknown option: '' @ cmd,
                               ''Run '' @ squote @ ''peon --help'' @ squote @ '' for usage.'']\<rparr>,
              w)
           else hook (stdin e) e w))"

subsection \<open>Runs, sequences of runs and the vocabulary of the specification\<close>

text \<open>A run is a hook run when \<^verbatim>\<open>main\<close> dispatches no subcommand.\<close>

definition hook_run :: "string list \<Rightarrow> bool" where
  "hook_run args =
     (case args of [] \<Rightarrow> True | cmd # rest \<Rightarrow> cmd \<noteq> ''-h'' \<and> take 2 cmd \<noteq> ''--'')"

text \<open>
  A hook run reaches event routing with the event \<open>ev\<close>: stdin holds it, the hook is not
  switched off, and agent detection lets it pass.
\<close>

definition reaches_routing :: "string list \<Rightarrow> env \<Rightarrow> world \<Rightarrow> event_data \<Rightarrow> bool" where
  "reaches_routing args e w ev =
     (hook_run args \<and> stdin e = Json_object ev \<and> \<not> hook_disabled (load_config w) \<and>
      permission_mode ev \<notin> agent_modes \<and> session_id ev \<notin> agent_sessions (load_state w))"

text \<open>
  Successive runs. Each run comes with its arguments, its host and the files it finds;
  only the state file is carried over from the run before, so the configuration, the pause
  marker and the packs may change freely between runs. The result lists, per run, the
  arguments, the host, the files before, the outcome and the files after.
\<close>

fun runs ::
  "state option \<Rightarrow> (string list \<times> env \<times> world) list \<Rightarrow>
   (string list \<times> env \<times> world \<times> outcome \<times> world) list" where
  "runs sf [] = []"
| "runs sf ((args, e, w) # rest) =
     (let w_in = w\<lparr>state_file := sf\<rparr>;
          res = main args e w_in
      in (args, e, w_in, fst res, snd res) # runs (state_file (snd res)) rest)"

text \<open>The session id of the event on stdin, if stdin holds an event.\<close>

definition event_session :: "env \<Rightarrow> string option" where
  "event_session e = (case stdin e of Json_object ev \<Rightarrow> Some (session_id ev) | _ \<Rightarrow> None)"





text \<open>The notifying events of the routing table, with their labels.\<close>

definition notify_label :: "event_data \<Rightarrow> string option" where
  "notify_label ev =
     (if hook_event_name ev = ''Stop'' then Some ''Task complete''
      else if hook_event_name ev = ''Notification'' \<and> notification_type ev = ''permission_prompt''
      then Some ''Permission needed''
      else if hook_event_name ev = ''Notification'' \<and> notification_type ev = ''idle_prompt''
      then Some ''Waiting for input''
      else if hook_event_name ev = ''PermissionRequest'' then Some ''Permission needed''
      else None)"

definition notify_status :: "event_data \<Rightarrow> string" where
  "notify_status ev =
     (if hook_event_name ev = ''Stop''
         \<or> (hook_event_name ev = ''Notification'' \<and> notification_type ev = ''idle_prompt'')
      then ''done'' else ''needs approval'')"

definition notify_colour :: "event_data \<Rightarrow> string" where
  "notify_colour ev =
     (if hook_event_name ev = ''Stop'' then ''blue''
      else if hook_event_name ev = ''Notification'' \<and> notification_type ev = ''idle_prompt''
      then ''yellow'' else ''red'')"

text \<open>
  The flag of a category as line 413 reads it, and the same files with the flag of one
  category set to true.
\<close>

definition category_flag :: "config \<Rightarrow> string \<Rightarrow> bool" where
  "category_flag cfg c = (str_lower (dict_get (categories cfg) c (JBool True)) = Some ''true'')"

definition enable_category :: "string \<Rightarrow> world \<Rightarrow> world" where
  "enable_category c w =
     w\<lparr>config_file :=
         Some ((load_config w)\<lparr>categories := (categories (load_config w))(c \<mapsto> JBool True)\<rparr>)\<rparr>"

text \<open>An event the routing table does not list.\<close>

definition unknown_event :: "event_data \<Rightarrow> bool" where
  "unknown_event ev =
     (if hook_event_name ev = ''Notification''
      then notification_type ev \<noteq> ''permission_prompt'' \<and> notification_type ev \<noteq> ''idle_prompt''
      else hook_event_name ev \<notin>
             {''SessionStart'', ''UserPromptSubmit'', ''Stop'', ''PermissionRequest''})"

text \<open>
  The project name in the specification's words: the last segment of the path, without
  the characters outside \<^verbatim>\<open>[A-Za-z0-9 ._-]\<close>, or \<^verbatim>\<open>claude\<close> when nothing is left.
  The segments of a path are what lies between its separators, and both the slash and the
  backslash separate (the comment at line 344 of the source).
\<close>

definition backslash :: char where
  "backslash = CHR 0x5C"

definition path_separator :: "char \<Rightarrow> bool" where
  "path_separator c = (c = CHR ''/'' \<or> c = backslash)"

fun split_on :: "(char \<Rightarrow> bool) \<Rightarrow> string \<Rightarrow> string list" where
  "split_on sep [] = [[]]"
| "split_on sep (c # cs) =
     (if sep c then [] # split_on sep cs
      else (case split_on sep cs of [] \<Rightarrow> [[c]] | x # xs \<Rightarrow> (c # x) # xs))"

definition spec_project :: "string \<Rightarrow> string" where
  "spec_project path =
     (let stripped = filter name_char (last (split_on path_separator path))
      in if stripped = [] then ''claude'' else stripped)"

subsection \<open>The installation of the test suite\<close>

text \<open>The packs, configuration and state of \<^verbatim>\<open>tests/conftest.py\<close>.\<close>

definition snd_of :: "string \<Rightarrow> string \<Rightarrow> sound" where
  "snd_of f l = \<lparr>s_file = f, s_line = l\<rparr>"

definition peon_manifest :: manifest where
  "peon_manifest =
     \<lparr>display_name = Some ''Orc Peon'',
      sounds_of =
        [''greeting'' \<mapsto> [snd_of ''Hello1.wav'' ''Ready to work?'', snd_of ''Hello2.wav'' ''Yes?''],
         ''acknowledge'' \<mapsto> [snd_of ''Ack1.wav'' ''Work, work.''],
         ''complete'' \<mapsto> [snd_of ''Done1.wav'' ''Something need doing?'',
                           snd_of ''Done2.wav'' ''Ready to work?''],
         ''error'' \<mapsto> [snd_of ''Error1.wav'' ''Me not that kind of orc!''],
         ''permission'' \<mapsto> [snd_of ''Perm1.wav'' ''Something need doing?'',
                             snd_of ''Perm2.wav'' ''Hmm?''],
         ''annoyed'' \<mapsto> [snd_of ''Angry1.wav'' ''Me busy, leave me alone!'']]\<rparr>"

definition kerrigan_manifest :: manifest where
  "kerrigan_manifest =
     \<lparr>display_name = Some ''Sarah Kerrigan (StarCraft)'',
      sounds_of =
        [''greeting'' \<mapsto> [snd_of ''Hello1.wav'' ''What now?''],
         ''complete'' \<mapsto> [snd_of ''Done1.wav'' ''I gotcha.'']]\<rparr>"

definition test_world :: world where
  "test_world =
     \<lparr>config_file = Some empty_config,
      state_file = Some empty_state,
      paused_file = False,
      packs = [(''peon'', Some peon_manifest), (''sc_kerrigan'', Some kerrigan_manifest)],
      sound_files =
        {(''peon'', ''Hello1.wav''), (''peon'', ''Hello2.wav''), (''peon'', ''Ack1.wav''),
         (''peon'', ''Done1.wav''), (''peon'', ''Done2.wav''), (''peon'', ''Error1.wav''),
         (''peon'', ''Perm1.wav''), (''peon'', ''Perm2.wav''), (''peon'', ''Angry1.wav''),
         (''sc_kerrigan'', ''Hello1.wav''), (''sc_kerrigan'', ''Done1.wav'')},
      update_available = None,
      version_file = Some ''1.0.0''\<rparr>"

definition test_event :: "string \<Rightarrow> string \<Rightarrow> string \<Rightarrow> string \<Rightarrow> event_data" where
  "test_event name ntype sid mode =
     \<lparr>hook_event_name = name, notification_type = ntype, cwd = ''/tmp/myproject'',
      session_id = sid, permission_mode = mode\<rparr>"

text \<open>A macOS host with another application in front.\<close>

definition test_env :: "stdin \<Rightarrow> real \<Rightarrow> env" where
  "test_env inp t =
     \<lparr>platform = Mac, stdin = inp, now = t, pack_draw = 0, sound_draw = 0,
      frontmost = Some ''Safari'', foreground_is_terminal = False,
      ntpath_basename = posixpath_basename\<rparr>"

section \<open>Properties\<close>

subsection \<open>Evaluation and basic facts\<close>

lemmas test_defs =
  test_world_def test_env_def test_event_def empty_config_def empty_state_def
  peon_manifest_def kerrigan_manifest_def snd_of_def

lemmas run_defs =
  main_def handle_event_def load_config_def hook_disabled_def load_state_def read_state_def
  agent_modes_def pin_pack_def draw_pack_def extract_project_name_def os_path_basename_def
  posixpath_basename_def name_char_def event_routing_def record_prompt_def no_routing_def
  dispatch_def cat_enabled_def category_names_def dict_get_def pick_sound_def random_choice_def
  terminal_is_focused_def MAC_TERMINALS_def send_notification_def play_sound_def
  strip_empty_def py_space_def update_notice_def quiet_def lower_char_def Let_def

lemma hook_run_cmd:
  "hook_run (cmd # rest) \<Longrightarrow>
     cmd \<noteq> ''--pause'' \<and> cmd \<noteq> ''--resume'' \<and> cmd \<noteq> ''--toggle'' \<and> cmd \<noteq> ''--status'' \<and>
     cmd \<noteq> ''--packs'' \<and> cmd \<noteq> ''--pack'' \<and> cmd \<noteq> ''--help'' \<and> cmd \<noteq> ''-h'' \<and>
     take 2 cmd \<noteq> ''--''"
  unfolding hook_run_def by (cases "take 2 cmd = ''--''") auto

lemma main_hook: "hook_run args \<Longrightarrow> main args e w = hook (stdin e) e w"
proof (cases args)
  case Nil
  then show ?thesis by (simp add: main_def)
next
  case (Cons cmd rest)
  assume "hook_run args"
  with Cons have "hook_run (cmd # rest)" by simp
  from hook_run_cmd[OF this] Cons show ?thesis by (simp add: main_def)
qed

lemma hook_run_Nil: "hook_run []"
  by (simp add: hook_run_def)

lemma agent_mode_iff:
  "(permission_mode ev \<noteq> [] \<and> permission_mode ev \<in> agent_modes) = (permission_mode ev = ''delegate'')"
  by (auto simp: agent_modes_def)

lemma load_state_upd [simp]: "load_state (w\<lparr>state_file := sf\<rparr>) = read_state sf"
  by (simp add: load_state_def)

lemma read_state_Some [simp]: "read_state (Some s) = s"
  by (simp add: read_state_def)

lemma load_config_upd [simp]: "load_config (w\<lparr>state_file := sf\<rparr>) = load_config w"
  by (simp add: load_config_def)

lemma unknown_routing: "unknown_event ev \<Longrightarrow> event_routing cfg ev t p st d = None"
  by (simp add: unknown_event_def event_routing_def split: if_splits)

lemma handle_unknown:
  assumes "unknown_event ev"
  shows "handle_event e w cfg paused ev =
           (quiet (Exit 0),
            if permission_mode ev = ''delegate''
            then w\<lparr>state_file := Some ((load_state w)\<lparr>agent_sessions :=
                     insert (session_id ev) (agent_sessions (load_state w))\<rparr>)\<rparr>
            else w)"
  unfolding handle_event_def agent_mode_iff Let_def
  by (simp add: unknown_routing[OF assms] split: prod.splits)

text \<open>The switch is off exactly when \<^verbatim>\<open>enabled\<close> is the boolean false or a string that
  reads \<^verbatim>\<open>false\<close> in any mix of cases.\<close>

lemma hook_disabled_iff:
  "hook_disabled cfg =
     (enabled cfg = JBool False \<or> (\<exists>s. enabled cfg = JStr s \<and> map lower_char s = ''false''))"
  by (cases "enabled cfg") (auto simp: hook_disabled_def)

subsection \<open>The kill switch\<close>

text \<open>
  C10. When the \<^verbatim>\<open>enabled\<close> field of the configuration reads \<^verbatim>\<open>false\<close>, every hook
  run exits with code 0 before it looks at the event: nothing is printed, played or notified
  and no file changes. Whatever stdin holds, even an event marked as delegated, the set
  \<^verbatim>\<open>agent_sessions\<close> stays as it was, so the switch comes before delegate detection.
\<close>

theorem kill_switch:
  assumes "hook_run args" and "hook_disabled (load_config w)"
  shows "main args e w = (quiet (Exit 0), w) \<and>
         agent_sessions (load_state (snd (main args e w))) = agent_sessions (load_state w)"
proof -
  have "hook (stdin e) e w = (quiet (Exit 0), w)"
    using assms(2) by (cases "stdin e") simp_all
  with main_hook[OF assms(1)] show ?thesis by simp
qed

theorem kill_switch_witness:
  "hook_run [] \<and>
   hook_disabled (load_config (test_world\<lparr>config_file := Some (empty_config\<lparr>enabled := JStr ''False''\<rparr>)\<rparr>)) \<and>
   main [] (test_env (Json_object (test_event ''SessionStart'' [] ''agent1'' ''delegate'')) 0)
     (test_world\<lparr>config_file := Some (empty_config\<lparr>enabled := JStr ''False''\<rparr>)\<rparr>) =
     (quiet (Exit 0), test_world\<lparr>config_file := Some (empty_config\<lparr>enabled := JStr ''False''\<rparr>)\<rparr>)"
proof -
  have h1: "hook_run []" by (simp add: hook_run_def)
  have h2: "hook_disabled (load_config (test_world\<lparr>config_file := Some (empty_config\<lparr>enabled := JStr ''False''\<rparr>)\<rparr>))"
    by (simp add: hook_disabled_def load_config_def lower_char_def)
  from kill_switch[OF h1 h2] h1 h2 show ?thesis by blast
qed

subsection \<open>Malformed input and unknown events\<close>

text \<open>
  C7, as amended. A hook run whose input cannot be read, is empty or is not JSON, or whose
  event has a name outside the routing table (or is a \<^verbatim>\<open>Notification\<close> of a type other
  than \<^verbatim>\<open>permission_prompt\<close> and \<^verbatim>\<open>idle_prompt\<close>), exits with code 0 and prints, plays
  and notifies nothing. It leaves every file as it was, with one exception: an unknown
  event whose \<^verbatim>\<open>permission_mode\<close> is \<^verbatim>\<open>delegate\<close>, with the hook switched on, has its
  session id added to \<^verbatim>\<open>agent_sessions\<close>, because agent detection runs before routing.
\<close>

theorem unknown_input:
  assumes "hook_run args"
      and "stdin e = Read_failed \<or> stdin e = Blank \<or> stdin e = Not_json \<or>
           stdin e = Json_object ev \<and> unknown_event ev"
  shows "main args e w =
           (quiet (Exit 0),
            if stdin e = Json_object ev \<and> permission_mode ev = ''delegate'' \<and>
               \<not> hook_disabled (load_config w)
            then w\<lparr>state_file := Some ((load_state w)\<lparr>agent_sessions :=
                     insert (session_id ev) (agent_sessions (load_state w))\<rparr>)\<rparr>
            else w)"
proof -
  from assms(2) consider "stdin e = Read_failed \<or> stdin e = Blank \<or> stdin e = Not_json"
    | "stdin e = Json_object ev" "unknown_event ev" by blast
  then have "hook (stdin e) e w =
           (quiet (Exit 0),
            if stdin e = Json_object ev \<and> permission_mode ev = ''delegate'' \<and>
               \<not> hook_disabled (load_config w)
            then w\<lparr>state_file := Some ((load_state w)\<lparr>agent_sessions :=
                     insert (session_id ev) (agent_sessions (load_state w))\<rparr>)\<rparr>
            else w)"
  proof cases
    case 1
    then show ?thesis by auto
  next
    case 2
    then show ?thesis by (simp add: handle_unknown)
  qed
  with main_hook[OF assms(1)] show ?thesis by simp
qed

theorem unknown_input_witness:
  "hook_run [] \<and> unknown_event (test_event ''SomeOtherEvent'' [] ''s1'' ''default'') \<and>
   main [] (test_env (Json_object (test_event ''SomeOtherEvent'' [] ''s1'' ''default'')) 0) test_world =
     (quiet (Exit 0), test_world)"
proof -
  have h1: "hook_run []" by (simp add: hook_run_def)
  have h2: "unknown_event (test_event ''SomeOtherEvent'' [] ''s1'' ''default'')"
    by (simp add: unknown_event_def test_event_def)
  have h3: "stdin (test_env (Json_object (test_event ''SomeOtherEvent'' [] ''s1'' ''default'')) 0) =
      Json_object (test_event ''SomeOtherEvent'' [] ''s1'' ''default'')"
    by (simp add: test_env_def)
  have h4: "permission_mode (test_event ''SomeOtherEvent'' [] ''s1'' ''default'') \<noteq> ''delegate''"
    by (simp add: test_event_def)
  from unknown_input[OF h1, of _ "test_event ''SomeOtherEvent'' [] ''s1'' ''default''" test_world] h1 h2 h3 h4
  show ?thesis by simp
qed

text \<open>
  The claim as first stated fails: the unknown event \<^verbatim>\<open>SubagentStop\<close> of a session in
  \<^verbatim>\<open>delegate\<close> mode rewrites the state file of the test installation.
\<close>

theorem unknown_delegate_changes_state:
  "unknown_event (test_event ''SubagentStop'' [] ''agent1'' ''delegate'') \<and>
   state_file (snd (main [] (test_env (Json_object (test_event ''SubagentStop'' [] ''agent1'' ''delegate'')) 0)
     test_world)) = Some (empty_state\<lparr>agent_sessions := {''agent1''}\<rparr>) \<and>
   Some (empty_state\<lparr>agent_sessions := {''agent1''}\<rparr>) \<noteq> state_file test_world"
  by (simp add: unknown_event_def run_defs test_defs)

subsection \<open>What each step leaves of the state\<close>

lemma pin_pack_frame:
  "pin_pack cfg sid r st = (p, st', d) \<Longrightarrow>
     agent_sessions st' = agent_sessions st \<and> prompt_timestamps st' = prompt_timestamps st \<and>
     last_played st' = last_played st"
  by (auto simp: pin_pack_def draw_pack_def split: if_splits option.splits)

lemma pick_sound_frame:
  "pick_sound w paused cat pack r st d = (sf, st', d') \<Longrightarrow>
     agent_sessions st' = agent_sessions st \<and> session_packs st' = session_packs st \<and>
     prompt_timestamps st' = prompt_timestamps st"
  by (auto simp: pick_sound_def Let_def split: if_splits option.splits)

lemma pick_sound_clean:
  "pick_sound w paused cat pack r st d = (sf, st', False) \<Longrightarrow> \<not> d \<and> st' = st \<and> sf = None"
  by (auto simp: pick_sound_def Let_def split: if_splits option.splits)

lemma event_routing_frame:
  "event_routing cfg ev t proj st d = Some (r, st', d') \<Longrightarrow>
     agent_sessions st' = agent_sessions st \<and> session_packs st' = session_packs st \<and>
     last_played st' = last_played st"
  unfolding event_routing_def record_prompt_def Let_def
  by (simp split: if_splits prod.splits) auto

lemma cmd_state:
  "state_file (snd (cmd_pause w)) = state_file w"
  "state_file (snd (cmd_resume w)) = state_file w"
  "state_file (snd (cmd_toggle w)) = state_file w"
  "state_file (snd (cmd_status w)) = state_file w"
  "state_file (snd (cmd_packs w)) = state_file w"
  "state_file (snd (cmd_help w)) = state_file w"
  "state_file (snd (cmd_pack a w)) = state_file w"
  by (simp_all add: cmd_pause_def cmd_resume_def cmd_toggle_def cmd_status_def cmd_packs_def
      cmd_help_def cmd_pack_def switch_pack_def Let_def split: option.splits)

lemma cmd_quiet:
  "o_notification (fst (cmd_pause w)) = None \<and> o_played (fst (cmd_pause w)) = None \<and> o_sound_file (fst (cmd_pause w)) = None"
  "o_notification (fst (cmd_resume w)) = None \<and> o_played (fst (cmd_resume w)) = None \<and> o_sound_file (fst (cmd_resume w)) = None"
  "o_notification (fst (cmd_toggle w)) = None \<and> o_played (fst (cmd_toggle w)) = None \<and> o_sound_file (fst (cmd_toggle w)) = None"
  "o_notification (fst (cmd_status w)) = None \<and> o_played (fst (cmd_status w)) = None \<and> o_sound_file (fst (cmd_status w)) = None"
  "o_notification (fst (cmd_packs w)) = None \<and> o_played (fst (cmd_packs w)) = None \<and> o_sound_file (fst (cmd_packs w)) = None"
  "o_notification (fst (cmd_help w)) = None \<and> o_played (fst (cmd_help w)) = None \<and> o_sound_file (fst (cmd_help w)) = None"
  "o_notification (fst (cmd_pack a w)) = None \<and> o_played (fst (cmd_pack a w)) = None \<and> o_sound_file (fst (cmd_pack a w)) = None"
  by (simp_all add: cmd_pause_def cmd_resume_def cmd_toggle_def cmd_status_def cmd_packs_def
      cmd_help_def cmd_pack_def switch_pack_def Let_def quiet_def split: option.splits)

lemma cli_state:
  assumes "\<not> hook_run args"
  shows "state_file (snd (main args e w)) = state_file w"
proof (cases args)
  case Nil
  with assms show ?thesis by (simp add: hook_run_def)
next
  case (Cons cmd rest)
  with assms have "cmd = ''-h'' \<or> take 2 cmd = ''--''" by (simp add: hook_run_def)
  then show ?thesis
  proof
    assume "cmd = ''-h''"
    with Cons show ?thesis by (simp add: main_def cmd_state)
  next
    assume "take 2 cmd = ''--''"
    with Cons show ?thesis by (simp add: main_def cmd_state)
  qed
qed

lemma cli_quiet:
  assumes "\<not> hook_run args"
  shows "o_notification (fst (main args e w)) = None \<and> o_played (fst (main args e w)) = None \<and>
   o_sound_file (fst (main args e w)) = None"
proof (cases args)
  case Nil
  with assms show ?thesis by (simp add: hook_run_def)
next
  case (Cons cmd rest)
  with assms have "cmd = ''-h'' \<or> take 2 cmd = ''--''" by (simp add: hook_run_def)
  then show ?thesis
  proof
    assume "cmd = ''-h''"
    with Cons show ?thesis by (simp add: main_def cmd_quiet)
  next
    assume "take 2 cmd = ''--''"
    with Cons show ?thesis by (simp add: main_def cmd_quiet quiet_def)
  qed
qed


lemma main_cases:
  "(state_file (snd (main args e w)) = state_file w \<and> o_sound_file (fst (main args e w)) = None \<and>
    o_played (fst (main args e w)) = None \<and> o_notification (fst (main args e w)) = None) \<or>
   (\<exists>ev. hook_run args \<and> stdin e = Json_object ev \<and> \<not> hook_disabled (load_config w) \<and>
      main args e w = handle_event e w (load_config w) (paused_file w) ev)"
proof (cases "hook_run args")
  case False
  from cli_state[OF this] cli_quiet[OF this] show ?thesis by simp
next
  case True
  from main_hook[OF this] have m: "main args e w = hook (stdin e) e w" .
  show ?thesis
  proof (cases "stdin e")
    case (Json_object ev)
    with m True show ?thesis by (simp add: quiet_def)
  qed (simp_all add: m quiet_def)
qed

lemma dispatch_world:
  assumes "dispatch e w cfg paused ev pack project r st dirty = (out, w')"
  shows "\<exists>st'. agent_sessions st' = agent_sessions st \<and> session_packs st' = session_packs st \<and>
           prompt_timestamps st' = prompt_timestamps st \<and>
           (w' = w\<lparr>state_file := Some st'\<rparr> \<or> (w' = w \<and> \<not> dirty \<and> st' = st))"
proof -
  let ?cat = "if category r \<noteq> [] \<and> \<not> dict_get (cat_enabled cfg) (category r) True then [] else category r"
  obtain sf st' d' where p: "pick_sound w paused ?cat pack (sound_draw e) st dirty = (sf, st', d')"
    by (cases "pick_sound w paused ?cat pack (sound_draw e) st dirty") auto
  from assms p have w': "w' = (if d' then w\<lparr>state_file := Some st'\<rparr> else w)"
    by (simp add: dispatch_def Let_def)
  have d: "\<not> d' \<Longrightarrow> \<not> dirty \<and> st' = st"
  proof -
    assume "\<not> d'"
    with p have "pick_sound w paused ?cat pack (sound_draw e) st dirty = (sf, st', False)" by simp
    from pick_sound_clean[OF this] show ?thesis by simp
  qed
  from pick_sound_frame[OF p] w' d show ?thesis by (cases d') auto
qed

text \<open>The three ways a parsed event is handled.\<close>

lemma handle_event_cases:
  assumes "handle_event e w cfg paused ev = (out, w')"
  obtains
    (delegate) "permission_mode ev = ''delegate''" "out = quiet (Exit 0)"
      "w' = w\<lparr>state_file := Some ((load_state w)\<lparr>agent_sessions :=
                insert (session_id ev) (agent_sessions (load_state w))\<rparr>)\<rparr>"
  | (agent) "permission_mode ev \<noteq> ''delegate''" "session_id ev \<in> agent_sessions (load_state w)"
      "out = quiet (Exit 0)" "w' = w"
  | (unrouted) pack st1 d1 where "permission_mode ev \<noteq> ''delegate''"
      "session_id ev \<notin> agent_sessions (load_state w)"
      "pin_pack cfg (session_id ev) (pack_draw e) (load_state w) = (pack, st1, d1)"
      "event_routing cfg ev (now e) (extract_project_name e (cwd ev)) st1 d1 = None"
      "out = quiet (Exit 0)" "w' = w"
  | (routed) pack st1 d1 r st2 d2 where "permission_mode ev \<noteq> ''delegate''"
      "session_id ev \<notin> agent_sessions (load_state w)"
      "pin_pack cfg (session_id ev) (pack_draw e) (load_state w) = (pack, st1, d1)"
      "event_routing cfg ev (now e) (extract_project_name e (cwd ev)) st1 d1 = Some (r, st2, d2)"
      "dispatch e w cfg paused ev pack (extract_project_name e (cwd ev)) r st2 d2 = (out, w')"
proof (cases "permission_mode ev = ''delegate''")
  case True
  with assms have "out = quiet (Exit 0)"
      "w' = w\<lparr>state_file := Some ((load_state w)\<lparr>agent_sessions :=
                insert (session_id ev) (agent_sessions (load_state w))\<rparr>)\<rparr>"
    by (simp_all add: handle_event_def agent_mode_iff agent_modes_def Let_def)
  with delegate[OF True] show ?thesis .
next
  case nd: False
  show ?thesis
  proof (cases "session_id ev \<in> agent_sessions (load_state w)")
    case True
    with assms nd have "out = quiet (Exit 0)" "w' = w"
      by (simp_all add: handle_event_def agent_mode_iff agent_modes_def Let_def)
    with agent[OF nd True] show ?thesis .
  next
    case na: False
    obtain pack st1 d1 where pp: "pin_pack cfg (session_id ev) (pack_draw e) (load_state w) = (pack, st1, d1)"
      by (cases "pin_pack cfg (session_id ev) (pack_draw e) (load_state w)") auto
    show ?thesis
    proof (cases "event_routing cfg ev (now e) (extract_project_name e (cwd ev)) st1 d1")
      case None
      with assms nd na pp have "out = quiet (Exit 0)" "w' = w"
        by (simp_all add: handle_event_def agent_mode_iff agent_modes_def Let_def)
      with unrouted[OF nd na pp None] show ?thesis .
    next
      case (Some x)
      obtain r st2 d2 where x: "x = (r, st2, d2)" by (cases x) auto
      with assms nd na pp Some
      have "dispatch e w cfg paused ev pack (extract_project_name e (cwd ev)) r st2 d2 = (out, w')"
        by (simp add: handle_event_def agent_mode_iff agent_modes_def Let_def)
      with routed[OF nd na pp] Some x show ?thesis by simp
    qed
  qed
qed

lemma handle_event_agents:
  "agent_sessions (load_state (snd (handle_event e w cfg paused ev))) =
     (if permission_mode ev = ''delegate''
      then insert (session_id ev) (agent_sessions (load_state w))
      else agent_sessions (load_state w))"
proof -
  obtain out w' where h: "handle_event e w cfg paused ev = (out, w')"
    by (cases "handle_event e w cfg paused ev") auto
  from h have "agent_sessions (load_state w') =
     (if permission_mode ev = ''delegate''
      then insert (session_id ev) (agent_sessions (load_state w))
      else agent_sessions (load_state w))"
  proof (cases rule: handle_event_cases)
    case (routed pack st1 d1 r st2 d2)
    from dispatch_world[OF routed(5)] pin_pack_frame[OF routed(3)] event_routing_frame[OF routed(4)]
      routed(1)
    show ?thesis by auto
  qed simp_all
  with h show ?thesis by simp
qed

lemma agent_mono:
  "sid \<in> agent_sessions (load_state w) \<Longrightarrow> sid \<in> agent_sessions (load_state (snd (main args e w)))"
  using main_cases[of args e w] by (auto simp: load_state_def handle_event_agents[unfolded load_state_def])

lemma agent_step:
  assumes "sid \<in> agent_sessions (load_state w)" "hook_run args" "event_session e = Some sid"
  shows "fst (main args e w) = quiet (Exit 0) \<and>
         last_played (load_state (snd (main args e w))) = last_played (load_state w) \<and>
         session_packs (load_state (snd (main args e w))) = session_packs (load_state w) \<and>
         prompt_timestamps (load_state (snd (main args e w))) = prompt_timestamps (load_state w)"
proof -
  from assms(3) obtain ev where ev: "stdin e = Json_object ev" "session_id ev = sid"
    by (auto simp: event_session_def split: stdin.splits)
  show ?thesis
  proof (cases "hook_disabled (load_config w)")
    case True
    with main_hook[OF assms(2)] ev show ?thesis by simp
  next
    case False
    with main_hook[OF assms(2)] ev
    have m: "main args e w = handle_event e w (load_config w) (paused_file w) ev" by simp
    obtain out w' where h: "handle_event e w (load_config w) (paused_file w) ev = (out, w')"
      by (cases "handle_event e w (load_config w) (paused_file w) ev") auto
    from h have "out = quiet (Exit 0) \<and>
         last_played (load_state w') = last_played (load_state w) \<and>
         session_packs (load_state w') = session_packs (load_state w) \<and>
         prompt_timestamps (load_state w') = prompt_timestamps (load_state w)"
      using assms(1) ev(2) by (cases rule: handle_event_cases) simp_all
    with m h show ?thesis by simp
  qed
qed


lemma load_state_read: "read_state (state_file w) = load_state w"
  by (simp add: load_state_def)

lemma agent_runs:
  "sid \<in> agent_sessions (read_state sf) \<Longrightarrow>
   \<forall>(args', e', w_in, out, w_out) \<in> set (runs sf later).
      hook_run args' \<and> event_session e' = Some sid \<longrightarrow>
        out = quiet (Exit 0) \<and>
        last_played (load_state w_out) = last_played (load_state w_in) \<and>
        session_packs (load_state w_out) = session_packs (load_state w_in) \<and>
        prompt_timestamps (load_state w_out) = prompt_timestamps (load_state w_in)"
proof (induction later arbitrary: sf)
  case Nil
  then show ?case by simp
next
  case (Cons x later)
  obtain args' e' w where x: "x = (args', e', w)" by (cases x) auto
  let ?w_in = "w\<lparr>state_file := sf\<rparr>"
  have a: "sid \<in> agent_sessions (load_state ?w_in)" using Cons.prems by simp
  from agent_mono[OF a, of args' e']
  have "sid \<in> agent_sessions (read_state (state_file (snd (main args' e' ?w_in))))"
    by (simp add: load_state_read)
  from Cons.IH[OF this] agent_step[OF a, of args' e'] x show ?case
    by (simp add: Let_def case_prod_beta)
qed

subsection \<open>Delegated sessions\<close>

text \<open>
  C3, as amended. While the hook is switched on, every hook run whose event has the
  \<^verbatim>\<open>permission_mode\<close> \<^verbatim>\<open>delegate\<close> adds the session id to \<^verbatim>\<open>agent_sessions\<close> and
  stops at once with code 0: nothing is printed, played or notified, and no other field of
  the state changes. From then on, whatever runs follow and whatever the configuration is,
  every hook run with an event of that session id ends the same way and leaves
  \<^verbatim>\<open>last_played\<close>, \<^verbatim>\<open>session_packs\<close> and \<^verbatim>\<open>prompt_timestamps\<close> as it found them.
\<close>

theorem delegated_session:
  assumes "hook_run args" and "stdin e = Json_object ev" and "\<not> hook_disabled (load_config w)"
      and "permission_mode ev = ''delegate''"
  shows "main args e w =
           (quiet (Exit 0),
            w\<lparr>state_file := Some ((load_state w)\<lparr>agent_sessions :=
                 insert (session_id ev) (agent_sessions (load_state w))\<rparr>)\<rparr>) \<and>
         (\<forall>(args', e', w_in, out, w_out) \<in> set (runs (state_file (snd (main args e w))) later).
            hook_run args' \<and> event_session e' = Some (session_id ev) \<longrightarrow>
              out = quiet (Exit 0) \<and>
              last_played (load_state w_out) = last_played (load_state w_in) \<and>
              session_packs (load_state w_out) = session_packs (load_state w_in) \<and>
              prompt_timestamps (load_state w_out) = prompt_timestamps (load_state w_in))"
proof -
  from main_hook[OF assms(1)] assms(2,3,4)
  have m: "main args e w =
           (quiet (Exit 0),
            w\<lparr>state_file := Some ((load_state w)\<lparr>agent_sessions :=
                 insert (session_id ev) (agent_sessions (load_state w))\<rparr>)\<rparr>)"
    by (simp add: handle_event_def agent_modes_def Let_def)
  then have "session_id ev \<in> agent_sessions (read_state (state_file (snd (main args e w))))"
    by simp
  from agent_runs[OF this] m show ?thesis by blast
qed

theorem delegated_session_witness:
  "hook_run [] \<and> \<not> hook_disabled (load_config test_world) \<and>
   main [] (test_env (Json_object (test_event ''SessionStart'' [] ''agent2'' ''delegate'')) 0) test_world =
     (quiet (Exit 0), test_world\<lparr>state_file := Some (empty_state\<lparr>agent_sessions := {''agent2''}\<rparr>)\<rparr>) \<and>
   map (\<lambda>(args', e', w_in, out, w_out). (out, last_played (load_state w_out)))
     (runs (state_file (snd (main [] (test_env (Json_object (test_event ''SessionStart'' [] ''agent2'' ''delegate'')) 0) test_world)))
        [([], test_env (Json_object (test_event ''Notification'' ''permission_prompt'' ''agent2'' [])) 1, test_world)]) =
     [(quiet (Exit 0), Map.empty)]"
proof -
  let ?ev = "test_event ''SessionStart'' [] ''agent2'' ''delegate''"
  let ?e = "test_env (Json_object ?ev) 0"
  let ?e2 = "test_env (Json_object (test_event ''Notification'' ''permission_prompt'' ''agent2'' [])) 1"
  have h1: "hook_run []" by (simp add: hook_run_def)
  have h2: "stdin ?e = Json_object ?ev" by (simp add: test_env_def)
  have h3: "\<not> hook_disabled (load_config test_world)"
    by (simp add: hook_disabled_def load_config_def test_world_def empty_config_def)
  have h4: "permission_mode ?ev = ''delegate''" by (simp add: test_event_def)
  have h5: "event_session ?e2 = Some (session_id ?ev)"
    by (simp add: event_session_def test_env_def test_event_def)
  have st: "load_state test_world = empty_state"
    by (simp add: load_state_def read_state_def test_world_def)
  note t = delegated_session[OF h1 h2 h3 h4, of "[([], ?e2, test_world)]"]
  from t have m: "main [] ?e test_world =
     (quiet (Exit 0), test_world\<lparr>state_file := Some (empty_state\<lparr>agent_sessions := {''agent2''}\<rparr>)\<rparr>)"
    by (simp add: st test_event_def empty_state_def)
  let ?w_in = "test_world\<lparr>state_file := state_file (snd (main [] ?e test_world))\<rparr>"
  have r: "runs (state_file (snd (main [] ?e test_world))) [([], ?e2, test_world)] =
      [([], ?e2, ?w_in, fst (main [] ?e2 ?w_in), snd (main [] ?e2 ?w_in))]"
    by (simp add: Let_def)
  from t have "\<forall>(args', e', w_in, out, w_out) \<in> set (runs (state_file (snd (main [] ?e test_world))) [([], ?e2, test_world)]).
            hook_run args' \<and> event_session e' = Some (session_id ?ev) \<longrightarrow>
              out = quiet (Exit 0) \<and>
              last_played (load_state w_out) = last_played (load_state w_in) \<and>
              session_packs (load_state w_out) = session_packs (load_state w_in) \<and>
              prompt_timestamps (load_state w_out) = prompt_timestamps (load_state w_in)"
    by (rule conjunct2)
  then have "fst (main [] ?e2 ?w_in) = quiet (Exit 0) \<and>
      last_played (load_state (snd (main [] ?e2 ?w_in))) = last_played (load_state ?w_in)"
    unfolding r using h1 h5 by (simp add: case_prod_beta)
  moreover have "last_played (load_state ?w_in) = Map.empty"
    by (simp add: m empty_state_def)
  ultimately have "map (\<lambda>(args', e', w_in, out, w_out). (out, last_played (load_state w_out)))
     (runs (state_file (snd (main [] ?e test_world))) [([], ?e2, test_world)]) =
     [(quiet (Exit 0), Map.empty)]"
    unfolding r by simp
  with h1 h3 m show ?thesis by simp
qed

text \<open>
  The claim as first stated fails: with \<^verbatim>\<open>enabled\<close> false, a run with a delegated event
  exits before agent detection and the session id is not recorded.
\<close>

theorem delegate_while_disabled:
  "permission_mode (test_event ''SessionStart'' [] ''agent1'' ''delegate'') = ''delegate'' \<and>
   ''agent1'' \<notin> agent_sessions (load_state (snd (main []
        (test_env (Json_object (test_event ''SessionStart'' [] ''agent1'' ''delegate'')) 0)
        (test_world\<lparr>config_file := Some (empty_config\<lparr>enabled := JBool False\<rparr>)\<rparr>))))"
  by (simp add: run_defs test_defs)

lemma main_routed:
  assumes "reaches_routing args e w ev"
  shows "main args e w =
     (case pin_pack (load_config w) (session_id ev) (pack_draw e) (load_state w) of
        (pack, st1, d1) \<Rightarrow>
          (case event_routing (load_config w) ev (now e) (extract_project_name e (cwd ev)) st1 d1 of
             None \<Rightarrow> (quiet (Exit 0), w)
           | Some (r, st2, d2) \<Rightarrow>
               dispatch e w (load_config w) (paused_file w) ev pack
                 (extract_project_name e (cwd ev)) r st2 d2))"
proof -
  from assms have hr: "hook_run args" and ev: "stdin e = Json_object ev"
    and en: "\<not> hook_disabled (load_config w)" and nd: "permission_mode ev \<noteq> ''delegate''"
    and na: "session_id ev \<notin> agent_sessions (load_state w)"
    by (simp_all add: reaches_routing_def agent_modes_def)
  from main_hook[OF hr] ev en
  have "main args e w = handle_event e w (load_config w) (paused_file w) ev" by simp
  with nd na show ?thesis
    by (simp add: handle_event_def agent_modes_def Let_def case_prod_beta)
qed

subsection \<open>Pack rotation\<close>













subsection \<open>Rapid prompts\<close>


lemma routing_prompt:
  assumes "hook_event_name ev = ''UserPromptSubmit''" and "dict_get (cat_enabled cfg) ''annoyed'' True"
  shows "event_routing cfg ev t p st d =
     Some (no_routing\<lparr>category :=
             (if annoyed_threshold cfg \<le> int (length (fst (record_prompt cfg (session_id ev) t st)))
              then ''annoyed'' else []),
             status := ''working''\<rparr>,
           snd (record_prompt cfg (session_id ev) t st), True)"
  using assms by (simp add: event_routing_def case_prod_beta)

lemma pick_sound_dirty:
  "pick_sound w paused cat pack r st True = (sf, st', d') \<Longrightarrow> d'"
  by (auto simp: pick_sound_def Let_def split: if_splits option.splits)

lemma dispatch_category:
  "o_category (fst (dispatch e w cfg paused ev pack project r st dirty)) =
     (if category r \<noteq> [] \<and> \<not> dict_get (cat_enabled cfg) (category r) True then [] else category r)"
  by (simp add: dispatch_def Let_def case_prod_beta)









subsection \<open>The sound selector\<close>








subsection \<open>Title and notification\<close>

lemma title_not_blank: "\<not> strip_empty (m @ p @ '': '' @ s)"
  by (simp add: strip_empty_def py_space_def)

lemma pick_sound_paused: "pick_sound w True cat pack r st d = (None, st, d)"
  by (simp add: pick_sound_def)

lemma pick_sound_no_category: "pick_sound w paused [] pack r st d = (None, st, d)"
  by (simp add: pick_sound_def)

lemma dispatch_title:
  "o_stdout (fst (dispatch e w cfg paused ev pack project r st dirty)) =
     [Title_escape (marker r @ project @ '': '' @ status r)]"
  by (simp add: dispatch_def Let_def case_prod_beta strip_empty_def py_space_def)

lemma dispatch_notification:
  "o_notification (fst (dispatch e w cfg paused ev pack project r st dirty)) =
     (if notify r \<noteq> [] \<and> \<not> paused \<and> platform e \<noteq> Windows \<and> \<not> terminal_is_focused e
      then send_notification (platform e) (msg r) (marker r @ project @ '': '' @ status r)
             (if notify_color r \<noteq> [] then notify_color r else ''red'')
      else None)"
  by (simp add: dispatch_def Let_def case_prod_beta)

lemma dispatch_paused:
  "o_sound_file (fst (dispatch e w cfg True ev pack project r st dirty)) = None \<and>
   o_played (fst (dispatch e w cfg True ev pack project r st dirty)) = None \<and>
   o_notification (fst (dispatch e w cfg True ev pack project r st dirty)) = None"
  by (simp add: dispatch_def Let_def pick_sound_paused)

lemma routing_notify:
  assumes "notify_label ev = Some label"
  shows "event_routing cfg ev t p st d =
     Some (\<lparr>category =
               (if hook_event_name ev = ''Stop'' then ''complete''
                else if hook_event_name ev = ''Notification'' \<and> notification_type ev = ''idle_prompt''
                then [] else ''permission''),
             status = notify_status ev, marker = bullet @ '' '', notify = ''1'',
             notify_color = notify_colour ev,
             msg = p @ ''  '' @ em_dash @ ''  '' @ label\<rparr>, st, d)"
  using assms
  by (simp add: notify_label_def notify_status_def notify_colour_def event_routing_def
      split: if_splits)

lemma paused_quiet:
  assumes "paused_file w"
  shows "o_notification (fst (main args e w)) = None \<and> o_played (fst (main args e w)) = None \<and>
         o_sound_file (fst (main args e w)) = None"
proof -
  from main_cases[of args e w] show ?thesis
  proof
    assume "state_file (snd (main args e w)) = state_file w \<and> o_sound_file (fst (main args e w)) = None \<and>
      o_played (fst (main args e w)) = None \<and> o_notification (fst (main args e w)) = None"
    then show ?thesis by simp
  next
    assume "\<exists>ev. hook_run args \<and> stdin e = Json_object ev \<and> \<not> hook_disabled (load_config w) \<and>
      main args e w = handle_event e w (load_config w) (paused_file w) ev"
    then obtain ev where m: "main args e w = handle_event e w (load_config w) (paused_file w) ev"
      by blast
    obtain out w' where h: "handle_event e w (load_config w) (paused_file w) ev = (out, w')"
      by (cases "handle_event e w (load_config w) (paused_file w) ev") auto
    from h have "o_notification out = None \<and> o_played out = None \<and> o_sound_file out = None"
    proof (cases rule: handle_event_cases)
      case (routed pack st1 d1 r st2 d2)
      from dispatch_paused[of e w "load_config w" ev pack "extract_project_name e (cwd ev)" r st2 d2]
        routed(5) assms show ?thesis by simp
    qed (simp_all add: quiet_def)
    with m h show ?thesis by simp
  qed
qed

text \<open>
  C9. While the pause marker is present, no run sends a notification or plays a sound.
  A hook run that reaches event routing with a notifying event (\<^verbatim>\<open>Stop\<close>,
  \<^verbatim>\<open>Notification\<close> with \<^verbatim>\<open>permission_prompt\<close> or \<^verbatim>\<open>idle_prompt\<close>,
  \<^verbatim>\<open>PermissionRequest\<close>) still writes the tab title: the bullet, the project name and
  the status of the event.
\<close>

theorem paused_notifying_event:
  assumes "paused_file w"
  shows "o_notification (fst (main args e w)) = None \<and> o_played (fst (main args e w)) = None \<and>
         o_sound_file (fst (main args e w)) = None \<and>
         (reaches_routing args e w ev \<and> notify_label ev \<noteq> None \<longrightarrow>
            o_exit (fst (main args e w)) = Exit 0 \<and>
            o_stdout (fst (main args e w)) =
              [Title_escape (bullet @ '' '' @ extract_project_name e (cwd ev) @ '': '' @
                             notify_status ev)])"
proof -
  have "o_exit (fst (main args e w)) = Exit 0 \<and> o_stdout (fst (main args e w)) =
      [Title_escape (bullet @ '' '' @ extract_project_name e (cwd ev) @ '': '' @ notify_status ev)]"
    if r: "reaches_routing args e w ev" and n: "notify_label ev \<noteq> None"
  proof -
    from n obtain label where l: "notify_label ev = Some label" by auto
    obtain pack st1 d1 where p: "pin_pack (load_config w) (session_id ev) (pack_draw e) (load_state w) = (pack, st1, d1)"
      by (cases "pin_pack (load_config w) (session_id ev) (pack_draw e) (load_state w)") auto
    from main_routed[OF r] p routing_notify[OF l]
    show ?thesis by (simp add: dispatch_title) (simp add: dispatch_def Let_def case_prod_beta)
  qed
  with paused_quiet[OF assms] show ?thesis by blast
qed


theorem paused_notifying_event_witness:
  "paused_file (test_world\<lparr>paused_file := True\<rparr>) \<and>
   reaches_routing [] (test_env (Json_object (test_event ''Stop'' [] ''s1'' ''default'')) 0)
     (test_world\<lparr>paused_file := True\<rparr>) (test_event ''Stop'' [] ''s1'' ''default'') \<and>
   notify_label (test_event ''Stop'' [] ''s1'' ''default'') \<noteq> None \<and>
   o_notification (fst (main [] (test_env (Json_object (test_event ''Stop'' [] ''s1'' ''default'')) 0)
     (test_world\<lparr>paused_file := True\<rparr>))) = None \<and>
   o_played (fst (main [] (test_env (Json_object (test_event ''Stop'' [] ''s1'' ''default'')) 0)
     (test_world\<lparr>paused_file := True\<rparr>))) = None \<and>
   o_stdout (fst (main [] (test_env (Json_object (test_event ''Stop'' [] ''s1'' ''default'')) 0)
     (test_world\<lparr>paused_file := True\<rparr>))) = [Title_escape (bullet @ '' myproject: done'')]"
proof -
  let ?ev = "test_event ''Stop'' [] ''s1'' ''default''"
  let ?e = "test_env (Json_object ?ev) 0"
  let ?w = "test_world\<lparr>paused_file := True\<rparr>"
  have h1: "paused_file ?w" by simp
  have h2: "reaches_routing [] ?e ?w ?ev"
    by (simp add: reaches_routing_def hook_run_def hook_disabled_def load_config_def
        load_state_def read_state_def agent_modes_def test_defs)
  have h3: "notify_label ?ev \<noteq> None" by (simp add: notify_label_def test_event_def)
  have p: "extract_project_name ?e (cwd ?ev) = ''myproject''"
    by (simp add: extract_project_name_def os_path_basename_def posixpath_basename_def
        name_char_def test_defs)
  have s: "notify_status ?ev = ''done''" by (simp add: notify_status_def test_event_def)
  from paused_notifying_event[OF h1, of "[]" ?e ?ev] h1 h2 h3 p s
  show ?thesis by simp
qed

subsection \<open>The project name\<close>

lemma length_split_on: "length (split_on sep p) = Suc (length (filter sep p))"
  by (induction p) (auto split: list.splits)

lemma split_on_nonempty: "split_on sep p \<noteq> []"
  using length_split_on[of sep p] by auto

lemma split_on_single: "\<forall>c \<in> set p. \<not> sep c \<Longrightarrow> split_on sep p = [p]"
  by (induction p) auto

lemma split_on_many: "\<exists>c \<in> set p. sep c \<Longrightarrow> tl (split_on sep p) \<noteq> []"
proof -
  assume "\<exists>c \<in> set p. sep c"
  then have "filter sep p \<noteq> []" by (auto simp: filter_empty_conv)
  then have "2 \<le> length (split_on sep p)" by (simp add: length_split_on Suc_le_eq)
  then show ?thesis by (cases "split_on sep p") auto
qed

lemma last_split_on: "last (split_on sep p) = rev (takeWhile (\<lambda>c. \<not> sep c) (rev p))"
proof (induction p)
  case Nil
  show ?case by simp
next
  case (Cons c cs)
  show ?case
  proof (cases "sep c")
    case True
    with Cons split_on_nonempty[of sep cs] show ?thesis
      by (auto simp: takeWhile_append)
  next
    case False
    show ?thesis
    proof (cases "\<exists>c \<in> set cs. sep c")
      case True
      from split_on_many[OF True] obtain x y ys where "split_on sep cs = x # y # ys"
        by (cases "split_on sep cs") (auto simp: neq_Nil_conv)
      with Cons False True show ?thesis by (auto simp: takeWhile_append)
    next
      case nin: False
      then have "\<forall>c \<in> set cs. \<not> sep c" by simp
      from split_on_single[OF this] False nin show ?thesis
        by (simp add: takeWhile_append)
    qed
  qed
qed

lemma posix_segment:
  "backslash \<notin> set p \<Longrightarrow> last (split_on path_separator p) = posixpath_basename p"
proof -
  assume b: "backslash \<notin> set p"
  have "takeWhile (\<lambda>c. \<not> path_separator c) (rev p) = takeWhile (\<lambda>c. c \<noteq> CHR ''/'') (rev p)"
    by (rule takeWhile_cong) (use b in \<open>auto simp: path_separator_def\<close>)
  then show ?thesis by (simp add: last_split_on posixpath_basename_def)
qed

lemma project_spec:
  "platform e \<noteq> Windows \<Longrightarrow> backslash \<notin> set p \<Longrightarrow> extract_project_name e p = spec_project p"
proof (cases p)
  case Nil
  then show ?thesis
    by (simp add: extract_project_name_def spec_project_def name_char_def)
next
  case (Cons c cs)
  assume "platform e \<noteq> Windows" and "backslash \<notin> set p"
  with Cons show ?thesis
    by (simp add: extract_project_name_def spec_project_def os_path_basename_def
        posix_segment Let_def del: split_on.simps)
qed

text \<open>
  C6, as amended. For every notifying event that reaches event routing on a host other
  than Windows, with a \<^verbatim>\<open>cwd\<close> that holds no backslash, the notification that is sent
  carries the message \<^verbatim>\<open>{project}  \<emdash>  {label}\<close>, with two spaces on each side of the dash,
  where the label is \<^verbatim>\<open>Task complete\<close> for \<^verbatim>\<open>Stop\<close>, \<^verbatim>\<open>Permission needed\<close> for a
  permission prompt and for \<^verbatim>\<open>PermissionRequest\<close>, and \<^verbatim>\<open>Waiting for input\<close> for an idle
  prompt, and where the project is the last path segment of \<^verbatim>\<open>cwd\<close> without the
  characters outside \<^verbatim>\<open>[A-Za-z0-9 ._-]\<close>, or \<^verbatim>\<open>claude\<close> when nothing is left. The
  notification is sent unless the hook is paused, a terminal is in front, or the platform
  has no notifier.
\<close>

theorem notification_message:
  assumes "reaches_routing args e w ev" and "notify_label ev = Some label"
      and "platform e \<noteq> Windows" and "backslash \<notin> set (cwd ev)"
  shows "o_notification (fst (main args e w)) =
           (if paused_file w \<or> terminal_is_focused e \<or> platform e = Linux \<or> platform e = Unknown
            then None
            else Some (spec_project (cwd ev) @ ''  '' @ em_dash @ ''  '' @ label,
                       bullet @ '' '' @ spec_project (cwd ev) @ '': '' @ notify_status ev,
                       notify_colour ev))"
proof -
  obtain pack st1 d1 where p: "pin_pack (load_config w) (session_id ev) (pack_draw e) (load_state w) = (pack, st1, d1)"
    by (cases "pin_pack (load_config w) (session_id ev) (pack_draw e) (load_state w)") auto
  have c: "notify_colour ev \<noteq> []" by (simp add: notify_colour_def)
  from main_routed[OF assms(1)] p routing_notify[OF assms(2)]
  have "main args e w = dispatch e w (load_config w) (paused_file w) ev pack
      (extract_project_name e (cwd ev))
      \<lparr>category =
               (if hook_event_name ev = ''Stop'' then ''complete''
                else if hook_event_name ev = ''Notification'' \<and> notification_type ev = ''idle_prompt''
                then [] else ''permission''),
             status = notify_status ev, marker = bullet @ '' '', notify = ''1'',
             notify_color = notify_colour ev,
             msg = extract_project_name e (cwd ev) @ ''  '' @ em_dash @ ''  '' @ label\<rparr> st1 d1"
    by simp
  then show ?thesis
    using assms(3) c
    by (cases "platform e")
       (simp_all add: dispatch_notification send_notification_def project_spec[OF assms(3) assms(4)])
qed

theorem notification_message_witness:
  "reaches_routing [] (test_env (Json_object (test_event ''Stop'' [] ''s1'' ''default'')) 0)
     test_world (test_event ''Stop'' [] ''s1'' ''default'') \<and>
   notify_label (test_event ''Stop'' [] ''s1'' ''default'') = Some ''Task complete'' \<and>
   platform (test_env (Json_object (test_event ''Stop'' [] ''s1'' ''default'')) 0) \<noteq> Windows \<and>
   backslash \<notin> set (cwd (test_event ''Stop'' [] ''s1'' ''default'')) \<and>
   o_notification (fst (main [] (test_env (Json_object (test_event ''Stop'' [] ''s1'' ''default'')) 0)
     test_world)) =
     Some (''myproject  '' @ em_dash @ ''  Task complete'', bullet @ '' myproject: done'', ''blue'')"
proof -
  let ?ev = "test_event ''Stop'' [] ''s1'' ''default''"
  let ?e = "test_env (Json_object ?ev) 0"
  have h1: "reaches_routing [] ?e test_world ?ev"
    by (simp add: reaches_routing_def hook_run_def hook_disabled_def load_config_def
        load_state_def read_state_def agent_modes_def test_defs)
  have h2: "notify_label ?ev = Some ''Task complete''" by (simp add: notify_label_def test_event_def)
  have h3: "platform ?e \<noteq> Windows" by (simp add: test_env_def)
  have h4: "backslash \<notin> set (cwd ?ev)" by (simp add: test_event_def backslash_def)
  have p: "spec_project (cwd ?ev) = ''myproject''"
    by (simp add: spec_project_def name_char_def path_separator_def backslash_def test_event_def)
  have s: "notify_status ?ev = ''done''" "notify_colour ?ev = ''blue''"
    by (simp_all add: notify_status_def notify_colour_def test_event_def)
  have f: "\<not> paused_file test_world" "\<not> terminal_is_focused ?e" "platform ?e = Mac"
    by (simp_all add: test_world_def test_env_def terminal_is_focused_def MAC_TERMINALS_def)
  from notification_message[OF h1 h2 h3 h4] h1 h2 h3 h4 p s f
  show ?thesis by simp
qed

text \<open>
  A \<^verbatim>\<open>cwd\<close> written with backslashes is outside the theorem. On a host other than
  Windows \<^verbatim>\<open>os.path.basename\<close> does not split at a backslash, so the whole path is taken
  for the name and loses its colon and backslashes, where the last path segment is
  \<^verbatim>\<open>my-proj\<close>.
\<close>

lemma backslash_cwd_not_split:
  "extract_project_name (test_env Blank 0)
     (''C:'' @ [backslash] @ ''Users'' @ [backslash] @ ''dev'' @ [backslash] @ ''my-proj'') =
     ''CUsersdevmy-proj'' \<and>
   spec_project
     (''C:'' @ [backslash] @ ''Users'' @ [backslash] @ ''dev'' @ [backslash] @ ''my-proj'') =
     ''my-proj''"
  by (simp add: extract_project_name_def os_path_basename_def posixpath_basename_def
      spec_project_def path_separator_def name_char_def backslash_def test_env_def Let_def)

text \<open>
  The claim as first stated fails: the message of the test suite's \<^verbatim>\<open>Stop\<close> event has two
  spaces on each side of the dash, so it is not \<^verbatim>\<open>myproject \<emdash> Task complete\<close>.
\<close>

theorem message_has_double_spaces:
  "o_notification (fst (main [] (test_env (Json_object (test_event ''Stop'' [] ''s1'' ''default'')) 0)
     test_world)) =
     Some (''myproject  '' @ em_dash @ ''  Task complete'', bullet @ '' myproject: done'', ''blue'') \<and>
   ''myproject  '' @ em_dash @ ''  Task complete'' \<noteq> ''myproject '' @ em_dash @ '' Task complete''"
  by (simp add: run_defs test_defs em_dash_def bullet_def)

subsection \<open>Switching packs\<close>





lemma switch_pack_exit:
  "o_exit (fst (switch_pack w cfg p)) =
     (case map_of (packs w) p of Some (Some m) \<Rightarrow> Exit 0 | _ \<Rightarrow> Uncaught)"
  by (simp add: switch_pack_def Let_def quiet_def split: option.splits)



text \<open>
  A directory whose name starts with a dot is no valid pack for the switch, though it
  holds a manifest: the switch reports it as not found and leaves the configuration alone.
\<close>

lemma dot_named_pack_not_switched:
  "main [''--pack'', ''.hidden'']  (test_env Blank 0)
     (test_world\<lparr>packs := (''.hidden'', Some kerrigan_manifest) # packs test_world\<rparr>) =
   ((quiet (Exit 1))
      \<lparr>o_stderr := [''Error: pack '' @ dquote @ ''.hidden'' @ dquote @ '' not found.'',
                     ''Available packs: peon, sc_kerrigan'']\<rparr>,
    test_world\<lparr>packs := (''.hidden'', Some kerrigan_manifest) # packs test_world\<rparr>)"
  by (simp add: main_def cmd_pack_def glob_packs_def Let_def test_world_def)


subsection \<open>Disabled categories\<close>

lemma cmd_category:
  "o_category (fst (cmd_pause w)) = []" "o_category (fst (cmd_resume w)) = []"
  "o_category (fst (cmd_toggle w)) = []" "o_category (fst (cmd_status w)) = []"
  "o_category (fst (cmd_packs w)) = []" "o_category (fst (cmd_help w)) = []"
  "o_category (fst (cmd_pack a w)) = []"
  by (simp_all add: cmd_pause_def cmd_resume_def cmd_toggle_def cmd_status_def cmd_packs_def
      cmd_help_def cmd_pack_def switch_pack_def Let_def quiet_def split: option.splits)

lemma cli_category:
  assumes "\<not> hook_run args"
  shows "o_category (fst (main args e w)) = []"
proof (cases args)
  case Nil
  with assms show ?thesis by (simp add: hook_run_def)
next
  case (Cons cmd rest)
  with assms have "cmd = ''-h'' \<or> take 2 cmd = ''--''" by (simp add: hook_run_def)
  then show ?thesis
  proof
    assume "cmd = ''-h''"
    with Cons show ?thesis by (simp add: main_def cmd_category)
  next
    assume "take 2 cmd = ''--''"
    with Cons show ?thesis by (simp add: main_def cmd_category quiet_def)
  qed
qed

lemma category_routed:
  assumes "o_category (fst (main args e w)) \<noteq> []"
  shows "\<exists>ev. reaches_routing args e w ev"
proof (rule ccontr)
  assume n: "\<not> (\<exists>ev. reaches_routing args e w ev)"
  have hr: "hook_run args" using assms cli_category by blast
  from main_hook[OF hr] have m: "main args e w = hook (stdin e) e w" .
  show False
  proof (cases "stdin e")
    case (Json_object ev)
    show ?thesis
    proof (cases "hook_disabled (load_config w)")
      case True
      with m Json_object assms show ?thesis by (simp add: quiet_def)
    next
      case False
      with m Json_object
      have mm: "main args e w = handle_event e w (load_config w) (paused_file w) ev" by simp
      obtain out w' where h: "handle_event e w (load_config w) (paused_file w) ev = (out, w')"
        by (cases "handle_event e w (load_config w) (paused_file w) ev") auto
      from h show ?thesis
      proof (cases rule: handle_event_cases)
        case delegate
        with mm h assms show ?thesis by (simp add: quiet_def)
      next
        case agent
        with mm h assms show ?thesis by (simp add: quiet_def)
      next
        case (unrouted pack st1 d1)
        with mm h assms show ?thesis by (simp add: quiet_def)
      next
        case (routed pack st1 d1 r st2 d2)
        with hr Json_object False have "reaches_routing args e w ev"
          by (simp add: reaches_routing_def agent_modes_def)
        with n show ?thesis by blast
      qed
    qed
  qed (use m assms in \<open>simp_all add: quiet_def split: if_splits\<close>)
qed

lemma routing_category:
  assumes "event_routing cfg ev t p st d = Some (r, st', d')"
  shows "category r = [] \<or> category r \<in> set category_names"
    and "category r = ''annoyed'' \<longrightarrow>
           hook_event_name ev = ''UserPromptSubmit'' \<and> dict_get (cat_enabled cfg) ''annoyed'' True"
  using assms
  by (auto simp: event_routing_def no_routing_def category_names_def case_prod_beta
      split: if_splits)

lemma cat_enabled_get:
  "c \<in> set category_names \<Longrightarrow>
     dict_get (cat_enabled cfg) c True =
       (str_lower (dict_get (categories cfg) c (JBool True)) = Some ''true'')"
  by (auto simp: cat_enabled_def category_names_def dict_get_def)

lemma cat_enabled_other:
  "k \<noteq> c \<Longrightarrow>
     dict_get (cat_enabled (cfg\<lparr>categories := (categories cfg)(c \<mapsto> v)\<rparr>)) k True =
     dict_get (cat_enabled cfg) k True"
  by (simp add: cat_enabled_def category_names_def dict_get_def)

lemma routing_other_flag:
  "c \<noteq> ''annoyed'' \<Longrightarrow>
     event_routing (cfg\<lparr>categories := (categories cfg)(c \<mapsto> v)\<rparr>) ev t p st d =
     event_routing cfg ev t p st d"
  using cat_enabled_other[of "''annoyed''" c cfg v]
  by (simp add: event_routing_def record_prompt_def)

lemma pin_pack_flag [simp]:
  "pin_pack (cfg\<lparr>categories := x\<rparr>) sid r st = pin_pack cfg sid r st"
  by (simp add: pin_pack_def draw_pack_def split: option.splits)

lemma hook_disabled_flag [simp]:
  "hook_disabled (cfg\<lparr>categories := x\<rparr>) = hook_disabled cfg"
  by (simp add: hook_disabled_def)

lemma dispatch_stderr:
  "o_stderr (fst (dispatch e w cfg paused ev pack project r st dirty)) =
     (if hook_event_name ev = ''SessionStart'' then update_notice w else []) @
     (if hook_event_name ev = ''SessionStart'' \<and> paused then [paused_notice] else [])"
  by (simp add: dispatch_def Let_def case_prod_beta)

lemma dispatch_exit:
  "o_exit (fst (dispatch e w cfg paused ev pack project r st dirty)) = Exit 0"
  by (simp add: dispatch_def Let_def case_prod_beta)

lemma dispatch_gated:
  assumes "category r = [] \<or> \<not> dict_get (cat_enabled cfg) (category r) True"
  shows "o_category (fst (dispatch e w cfg paused ev pack project r st dirty)) = [] \<and>
         o_sound_file (fst (dispatch e w cfg paused ev pack project r st dirty)) = None \<and>
         o_played (fst (dispatch e w cfg paused ev pack project r st dirty)) = None \<and>
         snd (dispatch e w cfg paused ev pack project r st dirty) =
           (if dirty then w\<lparr>state_file := Some st\<rparr> else w)"
proof -
  have c: "(if category r \<noteq> [] \<and> \<not> dict_get (cat_enabled cfg) (category r) True
            then [] else category r) = []"
    using assms by auto
  show ?thesis
    unfolding dispatch_def Let_def c pick_sound_no_category by simp
qed


lemma enable_category_files:
  "update_available (enable_category c w) = update_available w"
  "version_file (enable_category c w) = version_file w"
  "state_file (enable_category c w) = state_file w"
  "paused_file (enable_category c w) = paused_file w"
  "config_file (enable_category c w) =
     Some ((load_config w)\<lparr>categories := (categories (load_config w))(c \<mapsto> JBool True)\<rparr>)"
  by (simp_all add: enable_category_def)

lemma enable_category_facts:
  "load_config (enable_category c w) =
     (load_config w)\<lparr>categories := (categories (load_config w))(c \<mapsto> JBool True)\<rparr>"
  "load_state (enable_category c w) = load_state w"
  "paused_file (enable_category c w) = paused_file w"
  "update_notice (enable_category c w) = update_notice w"
  by (simp_all add: load_config_def [of "enable_category c w"] load_state_def
      update_notice_def enable_category_files split: option.splits)

lemma reaches_routing_enable:
  "reaches_routing args e (enable_category c w) ev = reaches_routing args e w ev"
  by (simp add: reaches_routing_def enable_category_facts)

text \<open>
  C5. Take an event that, with the flag of category \<open>c\<close> switched on, resolves to the
  non-empty category \<open>c\<close>. With that flag disabled and everything else the same, the run
  ends with the empty category: no sound is selected or played and \<^verbatim>\<open>last_played\<close>
  stays as it was. The exit code, the tab title with its status text, the notices on the
  error stream and the notification are exactly those of the run with the flag switched on.
\<close>

theorem disabled_category:
  assumes "c \<noteq> []" and "\<not> category_flag (load_config w) c"
      and "o_category (fst (main args e (enable_category c w))) = c"
  shows "o_category (fst (main args e w)) = [] \<and>
         o_sound_file (fst (main args e w)) = None \<and>
         o_played (fst (main args e w)) = None \<and>
         last_played (load_state (snd (main args e w))) = last_played (load_state w) \<and>
         o_exit (fst (main args e w)) = o_exit (fst (main args e (enable_category c w))) \<and>
         o_stdout (fst (main args e w)) = o_stdout (fst (main args e (enable_category c w))) \<and>
         o_stderr (fst (main args e w)) = o_stderr (fst (main args e (enable_category c w))) \<and>
         o_notification (fst (main args e w)) =
           o_notification (fst (main args e (enable_category c w)))"
proof -
  let ?cfg = "load_config w"
  let ?cfg' = "?cfg\<lparr>categories := (categories ?cfg)(c \<mapsto> JBool True)\<rparr>"
  let ?won = "enable_category c w"
  let ?proj = "\<lambda>ev. extract_project_name e (cwd ev)"
  from assms(1,3) have "o_category (fst (main args e ?won)) \<noteq> []" by simp
  from category_routed[OF this] obtain ev where ron: "reaches_routing args e ?won ev" by blast
  then have r: "reaches_routing args e w ev" by (simp add: reaches_routing_enable)
  obtain pack st1 d1 where
    p: "pin_pack ?cfg (session_id ev) (pack_draw e) (load_state w) = (pack, st1, d1)"
    by (cases "pin_pack ?cfg (session_id ev) (pack_draw e) (load_state w)") auto
  have l1: "last_played st1 = last_played (load_state w)"
    using pin_pack_frame[OF p] by simp
  from main_routed[OF ron] p
  have mon: "main args e ?won =
      (case event_routing ?cfg' ev (now e) (?proj ev) st1 d1 of
         None \<Rightarrow> (quiet (Exit 0), ?won)
       | Some (r, st2, d2) \<Rightarrow> dispatch e ?won ?cfg' (paused_file w) ev pack (?proj ev) r st2 d2)"
    by (simp add: enable_category_facts split: option.splits)
  from main_routed[OF r] p
  have m: "main args e w =
      (case event_routing ?cfg ev (now e) (?proj ev) st1 d1 of
         None \<Rightarrow> (quiet (Exit 0), w)
       | Some (r, st2, d2) \<Rightarrow> dispatch e w ?cfg (paused_file w) ev pack (?proj ev) r st2 d2)"
    by simp
  from mon assms(1,3) obtain ron2 st2 d2 where
    eon: "event_routing ?cfg' ev (now e) (?proj ev) st1 d1 = Some (ron2, st2, d2)"
    by (cases "event_routing ?cfg' ev (now e) (?proj ev) st1 d1") (auto simp: quiet_def)
  with mon have mon': "main args e ?won =
      dispatch e ?won ?cfg' (paused_file w) ev pack (?proj ev) ron2 st2 d2" by simp
  from assms(1,3) mon' have cr: "category ron2 = c"
    by (simp add: dispatch_category split: if_splits)
  from routing_category(1)[OF eon] cr assms(1) have cn: "c \<in> set category_names" by auto
  from assms(2) cn have off: "\<not> dict_get (cat_enabled ?cfg) c True"
    by (simp add: cat_enabled_get category_flag_def)
  show ?thesis
  proof (cases "c = ''annoyed''")
    case False
    from eon routing_other_flag[OF False]
    have e: "event_routing ?cfg ev (now e) (?proj ev) st1 d1 = Some (ron2, st2, d2)" by simp
    with m have m': "main args e w = dispatch e w ?cfg (paused_file w) ev pack (?proj ev) ron2 st2 d2"
      by simp
    have g: "category ron2 = [] \<or> \<not> dict_get (cat_enabled ?cfg) (category ron2) True"
      using cr off by simp
    have l2: "last_played st2 = last_played (load_state w)"
      using event_routing_frame[OF e] l1 by simp
    from dispatch_gated[OF g, of e w "paused_file w" ev pack "?proj ev" st2 d2] l2
    show ?thesis
      by (simp add: m' mon' dispatch_exit dispatch_title dispatch_stderr dispatch_notification
          enable_category_facts)
  next
    case True
    from routing_category(2)[OF eon] cr True
    have ups: "hook_event_name ev = ''UserPromptSubmit''" by simp
    from off True have noff: "\<not> dict_get (cat_enabled ?cfg) ''annoyed'' True" by simp
    from ups noff
    have e: "event_routing ?cfg ev (now e) (?proj ev) st1 d1 =
        Some (no_routing\<lparr>status := ''working''\<rparr>, st1, d1)"
      by (simp add: event_routing_def)
    have con: "dict_get (cat_enabled ?cfg') ''annoyed'' True"
      using True by (simp add: cat_enabled_def category_names_def dict_get_def)
    from routing_prompt[OF ups con, of "now e" "?proj ev" st1 d1] eon
    have ron2: "marker ron2 = []" "status ron2 = ''working''" "notify ron2 = []"
      by (auto simp: no_routing_def)
    from e m have m': "main args e w =
        dispatch e w ?cfg (paused_file w) ev pack (?proj ev) (no_routing\<lparr>status := ''working''\<rparr>) st1 d1"
      by simp
    have g: "category (no_routing\<lparr>status := ''working''\<rparr>) = [] \<or>
        \<not> dict_get (cat_enabled ?cfg) (category (no_routing\<lparr>status := ''working''\<rparr>)) True"
      by (simp add: no_routing_def)
    from dispatch_gated[OF g, of e w "paused_file w" ev pack "?proj ev" st1 d1] l1 ron2
    show ?thesis
      by (simp add: m' mon' dispatch_exit dispatch_title dispatch_stderr dispatch_notification
          enable_category_facts no_routing_def)
  qed
qed


theorem disabled_category_witness:
  "''greeting'' \<noteq> [] \<and>
   \<not> category_flag (load_config
        (test_world\<lparr>config_file := Some (empty_config\<lparr>categories := [''greeting'' \<mapsto> JBool False]\<rparr>)\<rparr>))
      ''greeting'' \<and>
   o_category (fst (main [] (test_env (Json_object (test_event ''SessionStart'' [] ''s1'' ''default'')) 0)
      (enable_category ''greeting''
        (test_world\<lparr>config_file := Some (empty_config\<lparr>categories := [''greeting'' \<mapsto> JBool False]\<rparr>)\<rparr>))))
     = ''greeting'' \<and>
   o_category (fst (main [] (test_env (Json_object (test_event ''SessionStart'' [] ''s1'' ''default'')) 0)
      (test_world\<lparr>config_file := Some (empty_config\<lparr>categories := [''greeting'' \<mapsto> JBool False]\<rparr>)\<rparr>)))
     = [] \<and>
   o_sound_file (fst (main [] (test_env (Json_object (test_event ''SessionStart'' [] ''s1'' ''default'')) 0)
      (test_world\<lparr>config_file := Some (empty_config\<lparr>categories := [''greeting'' \<mapsto> JBool False]\<rparr>)\<rparr>)))
     = None \<and>
   o_stdout (fst (main [] (test_env (Json_object (test_event ''SessionStart'' [] ''s1'' ''default'')) 0)
      (test_world\<lparr>config_file := Some (empty_config\<lparr>categories := [''greeting'' \<mapsto> JBool False]\<rparr>)\<rparr>)))
     = [Title_escape ''myproject: ready'']"
proof -
  let ?w = "test_world\<lparr>config_file := Some (empty_config\<lparr>categories := [''greeting'' \<mapsto> JBool False]\<rparr>)\<rparr>"
  let ?e = "test_env (Json_object (test_event ''SessionStart'' [] ''s1'' ''default'')) 0"
  have h1: "''greeting'' \<noteq> []" by simp
  have h2: "\<not> category_flag (load_config ?w) ''greeting''"
    by (simp add: category_flag_def load_config_def dict_get_def)
  have on: "o_category (fst (main [] ?e (enable_category ''greeting'' ?w))) = ''greeting'' \<and>
      o_stdout (fst (main [] ?e (enable_category ''greeting'' ?w))) = [Title_escape ''myproject: ready'']"
    by (simp add: enable_category_def run_defs test_defs)
  then have h3: "o_category (fst (main [] ?e (enable_category ''greeting'' ?w))) = ''greeting''" ..
  from disabled_category[OF h1 h2 h3] h1 h2 on show ?thesis by simp
qed

end
